theory Spec2Isabelle
  imports
    Main
    "HOL-Library.Char_ord"
    "HOL-Library.List_Lexorder"
    "HOL-Library.Product_Lexorder"
begin

section \<open>Values stored in the tables\<close>

text \<open>
  The APIs of the repository are Python classes whose \<open>retrieveOutput\<close> methods run
  prepared SQL statements against a PostgreSQL database. The embedding keeps that shape:
  a table is the list of its rows (in the order the store returns them), a prepared
  statement is a function from the database and its parameters to the list of result
  rows, \<open>fetchone\<close> takes the first row of that list, and a method is a function from
  the database to its outcome and the database it leaves behind.

  The table declarations (\<open>schema.sql\<close>) are not among the sources. The columns are the
  ones the statements name; the column types are the ones the prepared statements
  declare for the parameters compared with them.

  Each \<open>retrieveOutput\<close> catches what a statement raises, rolls back and reports an
  error. With parameters of the declared types, a statement raises only when the store
  refuses an insert. The insert of a class row carries a class type and a room number
  that the code has not looked up: there the refusal is a case of the model. The other
  inserts carry identifiers that the same call has just read from the tables they refer
  to, next to dates and a reason, and are taken to be accepted.
\<close>

subsection \<open>Calendar dates\<close>

text \<open>
  A \<open>date\<close> parameter is given as \<open>YYYY-MM-DD\<close>. Dates are compared chronologically,
  which is the lexicographic order on year, month and day.
\<close>

datatype date = Date (year: nat) (month: nat) (day: nat)

instantiation date :: linorder
begin

definition less_eq_date :: "date \<Rightarrow> date \<Rightarrow> bool" where
  "less_eq_date a b \<longleftrightarrow> (year a, month a, day a) \<le> (year b, month b, day b)"

definition less_date :: "date \<Rightarrow> date \<Rightarrow> bool" where
  "less_date a b \<longleftrightarrow> (year a, month a, day a) < (year b, month b, day b)"

instance
proof
  fix x y z :: date
  show "(x < y) = (x \<le> y \<and> \<not> y \<le> x)"
    unfolding less_eq_date_def less_date_def by (rule less_le_not_le)
  show "x \<le> x"
    unfolding less_eq_date_def by (rule order_refl)
  show "x \<le> y \<Longrightarrow> y \<le> z \<Longrightarrow> x \<le> z"
    unfolding less_eq_date_def by (rule order_trans)
  show "x \<le> y \<Longrightarrow> y \<le> x \<Longrightarrow> x = y"
  proof -
    assume "x \<le> y" and "y \<le> x"
    then have "(year x, month x, day x) = (year y, month y, day y)"
      unfolding less_eq_date_def by (rule antisym)
    then show "x = y" by (simp add: date.expand)
  qed
  show "x \<le> y \<or> y \<le> x"
    unfolding less_eq_date_def by (rule linear)
qed

end

subsection \<open>Times of day and intervals\<close>

text \<open>
  A \<open>time\<close> is a count of microseconds since midnight and an \<open>interval\<close> given as
  \<open>HH:MM:SS\<close> is a count of microseconds. PostgreSQL's \<open>time + interval\<close> yields a
  \<open>time\<close> again: the sum is reduced modulo 24 hours.
\<close>

type_synonym time = int
type_synonym interval = int

definition USECS_PER_DAY :: int where
  "USECS_PER_DAY = 86400000000"

definition hms :: "int \<Rightarrow> int \<Rightarrow> int \<Rightarrow> int" where
  "hms h m s = ((h * 60 + m) * 60 + s) * 1000000"

definition time_pl_interval :: "time \<Rightarrow> interval \<Rightarrow> time" where
  "time_pl_interval t d = (t + d) mod USECS_PER_DAY"

subsection \<open>Integers as text\<close>

text \<open>The text form of an integer, as \<open>'C' || new_id.id\<close> needs it.\<close>

function str_nat :: "nat \<Rightarrow> string" where
  "str_nat n =
     (if n < 10 then [''0123456789'' ! n]
      else str_nat (n div 10) @ [''0123456789'' ! (n mod 10)])"
  by pat_completeness auto
termination
  by (relation "measure (\<lambda>n. n)") auto

definition str_int :: "int \<Rightarrow> string" where
  "str_int i = (if i < 0 then CHR ''-'' # str_nat (nat (- i)) else str_nat (nat i))"

subsection \<open>Pattern matching\<close>

text \<open>\<open>x LIKE '%p%'\<close> for a pattern \<open>p\<close> without wildcards: \<open>p\<close> occurs in \<open>x\<close>.\<close>

fun like_contains :: "string \<Rightarrow> string \<Rightarrow> bool" where
  "like_contains p [] = (p = [])"
| "like_contains p (c # cs) = (take (length p) (c # cs) = p \<or> like_contains p cs)"

subsection \<open>Rows and tables\<close>

record Staff_row =
  Staff_ID :: int
  Staff_Number :: string
  Staff_FirstName :: string
  Staff_LastName :: string

record Substitute_row =
  Substitute_ID :: int
  Substitute_Number :: string
  Substitute_FirstName :: string
  Substitute_LastName :: string
  Substitute_WorkEmail :: string

record Availability_row =
  Availability_SubstituteID :: int
  Availability_StartDate :: date
  Availability_EndDate :: date

record TimeOffRequest_row =
  TimeOffRequest_ID :: int
  TimeOffRequest_StartDate :: date
  TimeOffRequest_EndDate :: date
  TimeOffRequest_Reason :: string
  TimeOffRequest_StaffID :: int
  TimeOffRequest_SubstituteID :: "int option"

record Class_row =
  Class_ID :: int
  Class_Number :: string
  Class_ClassTypeID :: string
  Class_RoomNumber :: string
  Class_StartTime :: time
  Class_Duration :: interval

record Student_row =
  Student_ID :: int
  Student_Number :: string
  Student_Grade :: string

text \<open>
  \<open>TimeOffRequest_seq\<close> is the last value handed out by the serial sequence of
  \<open>TimeOffRequest.ID\<close>. \<open>ClassType\<close> is read only through its \<open>ID\<close> column.
  \<open>StaffToClass\<close> holds pairs (StaffID, ClassID), \<open>StudentToClass\<close> pairs
  (StudentID, ClassID).
\<close>

record database =
  Staff :: "Staff_row list"
  Substitute :: "Substitute_row list"
  Availability :: "Availability_row list"
  TimeOffRequest :: "TimeOffRequest_row list"
  TimeOffRequest_seq :: int
  ClassType :: "string list"
  Class :: "Class_row list"
  Student :: "Student_row list"
  StaffToClass :: "(int \<times> int) list"
  StudentToClass :: "(int \<times> int) list"

definition fetchone :: "'a list \<Rightarrow> 'a option" where
  "fetchone rows = (case rows of [] \<Rightarrow> None | r # _ \<Rightarrow> Some r)"

text \<open>
  The outcomes that are no success, by the message that reports them: a staff, substitute
  or class number that is not found; \<open>Substitute is not available for the requested dates\<close>;
  \<open>Failed to retrieve request details\<close>; \<open>Room ... is not available at the given time\<close>;
  \<open>Error creating new class\<close>; \<open>Could not retrieve details for class ...\<close>.
\<close>

datatype error =
  StaffNotFound
  | SubstituteNotFound
  | SubstituteUnavailable
  | RequestDetailsNotRetrieved
  | RoomUnavailable
  | ErrorCreatingClass
  | ClassNotFound
  | ClassDetailsNotRetrieved

section \<open>requestTimeOff\<close>

definition validate_staff_plan :: "database \<Rightarrow> string \<Rightarrow> Staff_row list" where
  "validate_staff_plan db p1 = filter (\<lambda>s. Staff_Number s = p1) (Staff db)"

definition validate_substitute_plan :: "database \<Rightarrow> string \<Rightarrow> Substitute_row list" where
  "validate_substitute_plan db p1 = filter (\<lambda>s. Substitute_Number s = p1) (Substitute db)"

text \<open>\<open>SELECT COUNT(*) FROM Availability WHERE SubstituteID = $1 AND StartDate <= $2 AND EndDate >= $3\<close>\<close>

definition check_substitute_availability_plan :: "database \<Rightarrow> int \<Rightarrow> date \<Rightarrow> date \<Rightarrow> nat" where
  "check_substitute_availability_plan db p1 p2 p3 =
     length (filter (\<lambda>a. Availability_SubstituteID a = p1
                         \<and> Availability_StartDate a \<le> p2
                         \<and> Availability_EndDate a \<ge> p3) (Availability db))"

text \<open>The insert takes the next value of the sequence as the new ID and returns it.\<close>

definition insert_time_off_request_plan ::
  "database \<Rightarrow> date \<Rightarrow> date \<Rightarrow> string \<Rightarrow> int \<Rightarrow> int option \<Rightarrow> int \<times> database" where
  "insert_time_off_request_plan db p1 p2 p3 p4 p5 =
     (let new_id = TimeOffRequest_seq db + 1;
          row = \<lparr>TimeOffRequest_ID = new_id, TimeOffRequest_StartDate = p1,
                 TimeOffRequest_EndDate = p2, TimeOffRequest_Reason = p3,
                 TimeOffRequest_StaffID = p4, TimeOffRequest_SubstituteID = p5\<rparr>
      in (new_id, db\<lparr>TimeOffRequest := TimeOffRequest db @ [row], TimeOffRequest_seq := new_id\<rparr>))"

text \<open>
  The request joined with its staff member and, by a left join, with its substitute: a
  request without a matching substitute row yields one row with no substitute.
\<close>

definition get_time_off_request_plan ::
  "database \<Rightarrow> int \<Rightarrow> (TimeOffRequest_row \<times> Staff_row \<times> Substitute_row option) list" where
  "get_time_off_request_plan db p1 =
     concat (map (\<lambda>t. concat (map (\<lambda>s.
        (case filter (\<lambda>sub. TimeOffRequest_SubstituteID t = Some (Substitute_ID sub)) (Substitute db) of
           [] \<Rightarrow> [(t, s, None)]
         | subs \<Rightarrow> map (\<lambda>sub. (t, s, Some sub)) subs))
        (filter (\<lambda>s. TimeOffRequest_StaffID t = Staff_ID s) (Staff db))))
      (filter (\<lambda>t. TimeOffRequest_ID t = p1) (TimeOffRequest db)))"

record person_ref =
  ref_number :: string
  ref_name :: string

record request_result =
  request_id :: int
  start_date :: date
  end_date :: date
  reason :: string
  staff :: person_ref
  substitute :: "person_ref option"

text \<open>The dictionary stored in \<open>request_result\<close> from the first row of the details.\<close>

definition request_details_result ::
  "TimeOffRequest_row \<times> Staff_row \<times> Substitute_row option \<Rightarrow> request_result" where
  "request_details_result request_details =
     (case request_details of (t, s, sub) \<Rightarrow>
        \<lparr>request_id = TimeOffRequest_ID t,
         start_date = TimeOffRequest_StartDate t,
         end_date = TimeOffRequest_EndDate t,
         reason = TimeOffRequest_Reason t,
         staff = \<lparr>ref_number = Staff_Number s,
                   ref_name = Staff_FirstName s @ '' '' @ Staff_LastName s\<rparr>,
         substitute =
           (case sub of
              None \<Rightarrow> None
            | Some sb \<Rightarrow>
                if Substitute_Number sb = [] then None
                else Some \<lparr>ref_number = Substitute_Number sb,
                           ref_name = Substitute_FirstName sb @ '' '' @ Substitute_LastName sb\<rparr>)\<rparr>)"

text \<open>
  The validation of the substitute number, when one is given: a substitute number that
  is \<open>None\<close> or empty is no substitute (\<open>if self.substitute_number\<close>).
\<close>

definition validate_substitute ::
  "database \<Rightarrow> string option \<Rightarrow> date \<Rightarrow> date \<Rightarrow> error + int option" where
  "validate_substitute db substitute_number start_date' end_date' =
     (case substitute_number of
        None \<Rightarrow> Inr None
      | Some sn \<Rightarrow>
          if sn = [] then Inr None
          else (case fetchone (validate_substitute_plan db sn) of
                  None \<Rightarrow> Inl SubstituteNotFound
                | Some substitute_data \<Rightarrow>
                    if check_substitute_availability_plan db
                         (Substitute_ID substitute_data) start_date' end_date' = 0
                    then Inl SubstituteUnavailable
                    else Inr (Some (Substitute_ID substitute_data))))"

text \<open>
  \<open>retrieveOutput\<close> of \<open>requestTimeOff\<close>, on the fields set by \<open>getInput\<close> from its
  arguments. The insert is committed before the details are read back.
\<close>

definition requestTimeOff ::
  "database \<Rightarrow> string \<Rightarrow> date \<Rightarrow> date \<Rightarrow> string \<Rightarrow> string option
     \<Rightarrow> (error + request_result) \<times> database" where
  "requestTimeOff db staff_number start_date' end_date' reason' substitute_number =
     (case fetchone (validate_staff_plan db staff_number) of
        None \<Rightarrow> (Inl StaffNotFound, db)
      | Some staff_data \<Rightarrow>
          (case validate_substitute db substitute_number start_date' end_date' of
             Inl e \<Rightarrow> (Inl e, db)
           | Inr substitute_id \<Rightarrow>
               (case insert_time_off_request_plan db start_date' end_date' reason'
                       (Staff_ID staff_data) substitute_id of
                  (rid, db') \<Rightarrow>
                    (case fetchone (get_time_off_request_plan db' rid) of
                       None \<Rightarrow> (Inl RequestDetailsNotRetrieved, db')
                     | Some request_details \<Rightarrow>
                         (Inr (request_details_result request_details), db')))))"

section \<open>suggestSubstitutes\<close>

definition suggest_subs_validate_staff_plan :: "database \<Rightarrow> string \<Rightarrow> Staff_row list" where
  "suggest_subs_validate_staff_plan db p1 = filter (\<lambda>s. Staff_Number s = p1) (Staff db)"

text \<open>
  The condition on \<open>StartDate\<close> and \<open>EndDate\<close> that both
  \<open>suggest_subs_timeoff_request_plan\<close> (parameters 2 to 7) and the subquery of
  \<open>suggest_subs_available_plan\<close> (parameters 3 to 8) apply to a request.
\<close>

definition request_dates_condition ::
  "date \<Rightarrow> date \<Rightarrow> date \<Rightarrow> date \<Rightarrow> date \<Rightarrow> date \<Rightarrow> date \<Rightarrow> date \<Rightarrow> bool" where
  "request_dates_condition StartDate EndDate a b c d e f \<longleftrightarrow>
     (StartDate \<le> a \<and> EndDate \<ge> b) \<or>
     (StartDate \<ge> c \<and> StartDate \<le> d) \<or>
     (EndDate \<ge> e \<and> EndDate \<le> f)"

definition suggest_subs_timeoff_request_plan ::
  "database \<Rightarrow> int \<Rightarrow> date \<Rightarrow> date \<Rightarrow> date \<Rightarrow> date \<Rightarrow> date \<Rightarrow> date \<Rightarrow> TimeOffRequest_row list" where
  "suggest_subs_timeoff_request_plan db p1 p2 p3 p4 p5 p6 p7 =
     filter (\<lambda>t. TimeOffRequest_StaffID t = p1
                 \<and> request_dates_condition (TimeOffRequest_StartDate t) (TimeOffRequest_EndDate t)
                      p2 p3 p4 p5 p6 p7)
       (TimeOffRequest db)"

text \<open>The join of \<open>Substitute\<close> with \<open>Availability\<close> on the substitute's ID.\<close>

definition substitute_join_availability ::
  "database \<Rightarrow> (Substitute_row \<times> Availability_row) list" where
  "substitute_join_availability db =
     concat (map (\<lambda>s. map (\<lambda>a. (s, a))
                         (filter (\<lambda>a. Substitute_ID s = Availability_SubstituteID a) (Availability db)))
                 (Substitute db))"

definition suggest_subs_assigned_plan ::
  "database \<Rightarrow> int \<Rightarrow> date \<Rightarrow> date \<Rightarrow> (Substitute_row \<times> Availability_row) list" where
  "suggest_subs_assigned_plan db p1 p2 p3 =
     filter (\<lambda>(s, a). Substitute_ID s = p1
                      \<and> (Availability_StartDate a \<le> p2 \<and> Availability_EndDate a \<ge> p3))
       (substitute_join_availability db)"

text \<open>
  The subquery of \<open>suggest_subs_available_plan\<close>: the substitutes of the requests that
  have one and meet the condition on the dates.
\<close>

definition assigned_substitute_ids ::
  "database \<Rightarrow> date \<Rightarrow> date \<Rightarrow> date \<Rightarrow> date \<Rightarrow> date \<Rightarrow> date \<Rightarrow> int option list" where
  "assigned_substitute_ids db p3 p4 p5 p6 p7 p8 =
     map TimeOffRequest_SubstituteID
       (filter (\<lambda>t. TimeOffRequest_SubstituteID t \<noteq> None
                   \<and> request_dates_condition (TimeOffRequest_StartDate t) (TimeOffRequest_EndDate t)
                        p3 p4 p5 p6 p7 p8)
          (TimeOffRequest db))"

text \<open>\<open>ORDER BY s.LastName, s.FirstName\<close> is a sort on the pair of the two names.\<close>

definition suggest_subs_available_plan ::
  "database \<Rightarrow> date \<Rightarrow> date \<Rightarrow> date \<Rightarrow> date \<Rightarrow> date \<Rightarrow> date \<Rightarrow> date \<Rightarrow> date
     \<Rightarrow> (Substitute_row \<times> Availability_row) list" where
  "suggest_subs_available_plan db p1 p2 p3 p4 p5 p6 p7 p8 =
     sort_key (\<lambda>(s, a). (Substitute_LastName s, Substitute_FirstName s))
       (filter (\<lambda>(s, a). (Availability_StartDate a \<le> p1 \<and> Availability_EndDate a \<ge> p2)
                        \<and> Some (Substitute_ID s) \<notin> set (assigned_substitute_ids db p3 p4 p5 p6 p7 p8))
          (substitute_join_availability db))"

record candidate =
  number :: string
  first_name :: string
  last_name :: string
  work_email :: string
  availability_start :: date
  availability_end :: date
  already_assigned :: bool

definition candidate_of :: "bool \<Rightarrow> Substitute_row \<times> Availability_row \<Rightarrow> candidate" where
  "candidate_of assigned sub =
     (case sub of (s, a) \<Rightarrow>
        \<lparr>number = Substitute_Number s,
         first_name = Substitute_FirstName s,
         last_name = Substitute_LastName s,
         work_email = Substitute_WorkEmail s,
         availability_start = Availability_StartDate a,
         availability_end = Availability_EndDate a,
         already_assigned = assigned\<rparr>)"

text \<open>
  The row \<open>assigned_sub\<close> of \<open>retrieveOutput\<close>: the first request found for the staff
  member, when it has a substitute, and the first row of that substitute's details.
\<close>

definition assigned_sub_of ::
  "database \<Rightarrow> int \<Rightarrow> date \<Rightarrow> date \<Rightarrow> (Substitute_row \<times> Availability_row) option" where
  "assigned_sub_of db staff_id start_date' end_date' =
     (case fetchone (suggest_subs_timeoff_request_plan db staff_id start_date' end_date'
                       start_date' end_date' start_date' end_date') of
        None \<Rightarrow> None
      | Some request \<Rightarrow>
          (case TimeOffRequest_SubstituteID request of
             None \<Rightarrow> None
           | Some sid \<Rightarrow> fetchone (suggest_subs_assigned_plan db sid start_date' end_date')))"

definition suggestSubstitutes ::
  "database \<Rightarrow> string \<Rightarrow> date \<Rightarrow> date \<Rightarrow> error + candidate list" where
  "suggestSubstitutes db staff_number start_date' end_date' =
     (case fetchone (suggest_subs_validate_staff_plan db staff_number) of
        None \<Rightarrow> Inl StaffNotFound
      | Some staff_data \<Rightarrow>
          (case assigned_sub_of db (Staff_ID staff_data) start_date' end_date' of
             Some assigned_sub \<Rightarrow> Inr [candidate_of True assigned_sub]
           | None \<Rightarrow>
               Inr (map (candidate_of False)
                      (suggest_subs_available_plan db start_date' end_date' start_date' end_date'
                         start_date' end_date' start_date' end_date'))))"

section \<open>addClass\<close>

text \<open>\<open>SELECT 1 FROM class WHERE RoomNumber = $1 AND ($2 < (StartTime + Duration) AND StartTime < ($2 + $3))\<close>\<close>

definition check_room_availability_plan ::
  "database \<Rightarrow> string \<Rightarrow> time \<Rightarrow> interval \<Rightarrow> int list" where
  "check_room_availability_plan db p1 p2 p3 =
     map (\<lambda>c. 1)
       (filter (\<lambda>c. Class_RoomNumber c = p1
                   \<and> (p2 < time_pl_interval (Class_StartTime c) (Class_Duration c)
                      \<and> Class_StartTime c < time_pl_interval p2 p3))
          (Class db))"

fun sql_max :: "int list \<Rightarrow> int option" where
  "sql_max [] = None"
| "sql_max (x # xs) = (case sql_max xs of None \<Rightarrow> Some x | Some m \<Rightarrow> Some (max x m))"

text \<open>
  \<open>retrieveOutput\<close> first sets the sequence of \<open>class.id\<close> to
  \<open>COALESCE((SELECT max(id) FROM class), 0) + 1\<close>, not yet called, so that the insert's
  \<open>nextval\<close> is that value. \<open>class.id\<close> is a serial column (the code asks for its
  sequence by \<open>pg_get_serial_sequence\<close>): a 32-bit integer, with a sequence that runs
  from 1 to 2147483647. The statement raises when the sum leaves the 32-bit integers or
  the value leaves the range of the sequence; \<open>retrieveOutput\<close> then reports an error,
  before the room is checked. \<open>None\<close> is that case.
\<close>

definition INT4_MAX :: int where
  "INT4_MAX = 2147483647"

definition setval_class_id :: "database \<Rightarrow> int option" where
  "setval_class_id db =
     (let v = (case sql_max (map Class_ID (Class db)) of None \<Rightarrow> 0 | Some m \<Rightarrow> m) + 1
      in if 1 \<le> v \<and> v \<le> INT4_MAX then Some v else None)"

text \<open>
  The insert takes \<open>nextval\<close> of the sequence as the new ID. The integrity constraints
  that the schema declares on table \<open>class\<close> are not in the sources: \<open>accepts db row\<close>
  stands for them. An insert they refuse raises, and \<open>retrieveOutput\<close> rolls back.
\<close>

definition insert_class_plan_v5 ::
  "(database \<Rightarrow> Class_row \<Rightarrow> bool) \<Rightarrow> int \<Rightarrow> database \<Rightarrow> string \<Rightarrow> string \<Rightarrow> time \<Rightarrow> interval
     \<Rightarrow> (Class_row \<times> database) option" where
  "insert_class_plan_v5 accepts nextval db p1 p2 p3 p4 =
     (let new_id = nextval;
          row = \<lparr>Class_ID = new_id, Class_Number = CHR ''C'' # str_int new_id,
                 Class_ClassTypeID = p1, Class_RoomNumber = p2,
                 Class_StartTime = p3, Class_Duration = p4\<rparr>
      in if accepts db row then Some (row, db\<lparr>Class := Class db @ [row]\<rparr>) else None)"

record new_class_details =
  cd_number :: string
  cd_room_number :: string
  cd_start_time :: time
  cd_duration :: interval

text \<open>
  \<open>retrieveOutput\<close> of \<open>addClass\<close>: the sequence is set, the room is checked, the class
  is inserted.
\<close>

definition addClass ::
  "(database \<Rightarrow> Class_row \<Rightarrow> bool) \<Rightarrow> database \<Rightarrow> string \<Rightarrow> string \<Rightarrow> time \<Rightarrow> interval
     \<Rightarrow> (error + new_class_details) \<times> database" where
  "addClass accepts db room_number class_type start_time duration =
     (case setval_class_id db of
        None \<Rightarrow> (Inl ErrorCreatingClass, db)
      | Some nextval \<Rightarrow>
          (case fetchone (check_room_availability_plan db room_number start_time duration) of
             Some availability_result \<Rightarrow> (Inl RoomUnavailable, db)
           | None \<Rightarrow>
               (case insert_class_plan_v5 accepts nextval db class_type room_number
                       start_time duration of
                  None \<Rightarrow> (Inl ErrorCreatingClass, db)
                | Some (result, db') \<Rightarrow>
                    (Inr \<lparr>cd_number = Class_Number result,
                          cd_room_number = Class_RoomNumber result,
                          cd_start_time = Class_StartTime result,
                          cd_duration = Class_Duration result\<rparr>,
                     db'))))"

section \<open>fillClass\<close>

definition get_class_id_plan :: "database \<Rightarrow> string \<Rightarrow> int list" where
  "get_class_id_plan db p1 = map Class_ID (filter (\<lambda>c. Class_Number c = p1) (Class db))"

definition get_staff_id_plan :: "database \<Rightarrow> string \<Rightarrow> int list" where
  "get_staff_id_plan db p1 = map Staff_ID (filter (\<lambda>s. Staff_Number s = p1) (Staff db))"

definition get_student_id_plan :: "database \<Rightarrow> string \<Rightarrow> int list" where
  "get_student_id_plan db p1 = map Student_ID (filter (\<lambda>s. Student_Number s = p1) (Student db))"

text \<open>
  Modelled from the spec: the uniqueness constraint that \<open>ON CONFLICT DO NOTHING\<close>
  relies on is declared in the schema, which is not among the sources. The spec has the
  inserts into \<open>StaffToClass\<close> and \<open>StudentToClass\<close> skip a pair that is already there.
\<close>

definition on_conflict_do_nothing :: "int \<times> int \<Rightarrow> (int \<times> int) list \<Rightarrow> (int \<times> int) list" where
  "on_conflict_do_nothing row rows = (if row \<in> set rows then rows else rows @ [row])"

definition insert_staff_plan :: "database \<Rightarrow> int \<Rightarrow> int \<Rightarrow> database" where
  "insert_staff_plan db p1 p2 = db\<lparr>StaffToClass := on_conflict_do_nothing (p1, p2) (StaffToClass db)\<rparr>"

definition insert_student_plan :: "database \<Rightarrow> int \<Rightarrow> int \<Rightarrow> database" where
  "insert_student_plan db p1 p2 = db\<lparr>StudentToClass := on_conflict_do_nothing (p1, p2) (StudentToClass db)\<rparr>"

definition get_class_assignments_plan :: "database \<Rightarrow> string \<Rightarrow> (string \<times> string) list" where
  "get_class_assignments_plan db p1 =
     concat (map (\<lambda>s. concat (map (\<lambda>stc.
         map (\<lambda>c. (Student_Number s, ''student''))
           (filter (\<lambda>c. snd stc = Class_ID c \<and> Class_Number c = p1) (Class db)))
         (filter (\<lambda>stc. Student_ID s = fst stc) (StudentToClass db))))
       (Student db))
     @ concat (map (\<lambda>st. concat (map (\<lambda>stf.
         map (\<lambda>c. (Staff_Number st, ''staff''))
           (filter (\<lambda>c. snd stf = Class_ID c \<and> Class_Number c = p1) (Class db)))
         (filter (\<lambda>stf. Staff_ID st = fst stf) (StaffToClass db))))
       (Staff db))"

text \<open>\<open>LEFT(ct.ID, 1)\<close> is the first character of the class type's ID, as a text.\<close>

definition get_class_details_plan :: "database \<Rightarrow> string \<Rightarrow> (time \<times> interval \<times> string) list" where
  "get_class_details_plan db p1 =
     concat (map (\<lambda>c. map (\<lambda>ct. (Class_StartTime c, Class_Duration c, take 1 ct))
                         (filter (\<lambda>ct. Class_ClassTypeID c = ct) (ClassType db)))
                 (filter (\<lambda>c. Class_Number c = p1) (Class db)))"

definition get_eligible_students_plan :: "database \<Rightarrow> string \<Rightarrow> string \<Rightarrow> string list" where
  "get_eligible_students_plan db p1 p2 =
     map Student_Number
       (filter (\<lambda>s. Student_Grade s = p1
                   \<and> \<not> (\<exists>stc \<in> set (StudentToClass db). \<exists>c \<in> set (Class db).
                          snd stc = Class_ID c
                          \<and> Student_ID s = fst stc
                          \<and> like_contains ''HR'' (Class_ClassTypeID c)
                          \<and> Class_Number c \<noteq> p2))
          (Student db))"

text \<open>The loop over the eligible students: one pass of its body, then the loop.\<close>

definition enroll_student :: "int \<Rightarrow> string \<Rightarrow> database \<Rightarrow> database" where
  "enroll_student class_id student_number db =
     (case fetchone (get_student_id_plan db student_number) of
        None \<Rightarrow> db
      | Some student_id \<Rightarrow> insert_student_plan db student_id class_id)"

definition enroll_students :: "int \<Rightarrow> string list \<Rightarrow> database \<Rightarrow> database" where
  "enroll_students class_id eligible_students db = fold (enroll_student class_id) eligible_students db"

text \<open>
  \<open>retrieveOutput\<close> of \<open>fillClass\<close>. The staff assignment is committed before the class
  details are read, so it stays when they cannot be retrieved.
\<close>

definition fillClass ::
  "database \<Rightarrow> string \<Rightarrow> string \<Rightarrow> (error + (string \<times> string) list) \<times> database" where
  "fillClass db class_number staff_number =
     (case fetchone (get_class_id_plan db class_number) of
        None \<Rightarrow> (Inl ClassNotFound, db)
      | Some class_id \<Rightarrow>
          (case fetchone (get_staff_id_plan db staff_number) of
             None \<Rightarrow> (Inl StaffNotFound, db)
           | Some staff_id \<Rightarrow>
               (let db1 = insert_staff_plan db staff_id class_id
                in case fetchone (get_class_details_plan db1 class_number) of
                     None \<Rightarrow> (Inl ClassDetailsNotRetrieved, db1)
                   | Some (class_start_time, class_duration, class_grade) \<Rightarrow>
                       (let eligible_students =
                              get_eligible_students_plan db1 class_grade class_number;
                            db2 = enroll_students class_id eligible_students db1
                        in (Inr (get_class_assignments_plan db2 class_number), db2)))))"

section \<open>Scenarios\<close>

text \<open>Concrete rows and databases, used to run the operations on the scenarios of the specification.\<close>

definition empty_database :: database where
  "empty_database =
     \<lparr>Staff = [], Substitute = [], Availability = [], TimeOffRequest = [],
      TimeOffRequest_seq = 0, ClassType = [], Class = [], Student = [],
      StaffToClass = [], StudentToClass = []\<rparr>"

definition staffA :: Staff_row where
  "staffA = \<lparr>Staff_ID = 1, Staff_Number = ''T001'', Staff_FirstName = ''Ada'', Staff_LastName = ''Moss''\<rparr>"

definition staffB :: Staff_row where
  "staffB = \<lparr>Staff_ID = 2, Staff_Number = ''T002'', Staff_FirstName = ''Ben'', Staff_LastName = ''Reed''\<rparr>"

definition Sub1 :: Substitute_row where
  "Sub1 = \<lparr>Substitute_ID = 1, Substitute_Number = ''SUB1'', Substitute_FirstName = ''Cleo'',
           Substitute_LastName = ''Young'', Substitute_WorkEmail = ''cleo@nee.example''\<rparr>"

definition Sub2 :: Substitute_row where
  "Sub2 = \<lparr>Substitute_ID = 2, Substitute_Number = ''SUB2'', Substitute_FirstName = ''Dan'',
           Substitute_LastName = ''Abbot'', Substitute_WorkEmail = ''dan@nee.example''\<rparr>"

definition available :: "int \<Rightarrow> date \<Rightarrow> date \<Rightarrow> Availability_row" where
  "available sid a b =
     \<lparr>Availability_SubstituteID = sid, Availability_StartDate = a, Availability_EndDate = b\<rparr>"

text \<open>Sub1 is available from 2025-01-01 to 2025-01-10.\<close>

definition january_db :: database where
  "january_db = empty_database
     \<lparr>Staff := [staffA, staffB], Substitute := [Sub1],
      Availability := [available 1 (Date 2025 1 1) (Date 2025 1 10)]\<rparr>"

text \<open>Sub1 is available from 2025-01-01 to 2025-01-10 and from 2025-01-09 to 2025-01-20.\<close>

definition pieced_db :: database where
  "pieced_db = empty_database
     \<lparr>Staff := [staffA, staffB], Substitute := [Sub1],
      Availability := [available 1 (Date 2025 1 1) (Date 2025 1 10),
                       available 1 (Date 2025 1 9) (Date 2025 1 20)]\<rparr>"

text \<open>Sub1 is available for the whole of 2025; no request is stored yet.\<close>

definition february_db :: database where
  "february_db = empty_database
     \<lparr>Staff := [staffA, staffB], Substitute := [Sub1],
      Availability := [available 1 (Date 2025 1 1) (Date 2025 12 31)]\<rparr>"

definition request_row ::
  "int \<Rightarrow> date \<Rightarrow> date \<Rightarrow> string \<Rightarrow> int \<Rightarrow> int option \<Rightarrow> TimeOffRequest_row" where
  "request_row rid a b r sid sub =
     \<lparr>TimeOffRequest_ID = rid, TimeOffRequest_StartDate = a, TimeOffRequest_EndDate = b,
      TimeOffRequest_Reason = r, TimeOffRequest_StaffID = sid, TimeOffRequest_SubstituteID = sub\<rparr>"

text \<open>Room R100 with an empty schedule; a store that refuses no class row.\<close>

definition room_db :: database where
  "room_db = empty_database\<lparr>ClassType := [''1HR'', ''2HR'']\<rparr>"

definition accepts_all :: "database \<Rightarrow> Class_row \<Rightarrow> bool" where
  "accepts_all db row = True"

definition class_row :: "int \<Rightarrow> string \<Rightarrow> string \<Rightarrow> string \<Rightarrow> time \<Rightarrow> interval \<Rightarrow> Class_row" where
  "class_row cid n ct r st du =
     \<lparr>Class_ID = cid, Class_Number = n, Class_ClassTypeID = ct, Class_RoomNumber = r,
      Class_StartTime = st, Class_Duration = du\<rparr>"

text \<open>
  Grade 3 has the homeroom classes C1 (type 3HR-A) and C2 (type 3HR-B). Student S1 of
  grade 3 is enrolled in C1; student S2 of grade 3 and student S3 of grade 4 are not
  enrolled anywhere.
\<close>

definition student_row :: "int \<Rightarrow> string \<Rightarrow> string \<Rightarrow> Student_row" where
  "student_row sid n g = \<lparr>Student_ID = sid, Student_Number = n, Student_Grade = g\<rparr>"

definition homeroom_db :: database where
  "homeroom_db = empty_database
     \<lparr>Staff := [staffA, staffB],
      ClassType := [''3HR-A'', ''3HR-B''],
      Class := [class_row 1 ''C1'' ''3HR-A'' ''R100'' (hms 9 0 0) (hms 1 0 0),
                class_row 2 ''C2'' ''3HR-B'' ''R101'' (hms 9 0 0) (hms 1 0 0)],
      Student := [student_row 1 ''S1'' ''3'', student_row 2 ''S2'' ''3'', student_row 3 ''S3'' ''4''],
      StudentToClass := [(1, 1)]\<rparr>"

text \<open>
  Sub1 (Young) and Sub2 (Abbot), stored in this order, are both available for the whole
  of 2025; no request is stored.
\<close>

definition year_db :: database where
  "year_db = empty_database
     \<lparr>Staff := [staffA, staffB], Substitute := [Sub1, Sub2],
      Availability := [available 1 (Date 2025 1 1) (Date 2025 12 31),
                       available 2 (Date 2025 1 1) (Date 2025 12 31)]\<rparr>"

text \<open>
  In addition, staff member T001 has two requests: from 2025-02-01 to 2025-02-03 without
  a substitute, and from 2025-02-02 to 2025-02-04 with Sub1.
\<close>

definition two_requests_db :: database where
  "two_requests_db = year_db
     \<lparr>TimeOffRequest := [request_row 1 (Date 2025 2 1) (Date 2025 2 3) ''leave'' 1 None,
                         request_row 2 (Date 2025 2 2) (Date 2025 2 4) ''leave'' 1 (Some 1)],
      TimeOffRequest_seq := 2\<rparr>"

text \<open>
  Staff member T001 has one request, from 2025-02-01 to 2025-02-03 with Sub1; both
  substitutes are available for the whole of 2025.
\<close>

definition committed_db :: database where
  "committed_db = year_db
     \<lparr>TimeOffRequest := [request_row 1 (Date 2025 2 1) (Date 2025 2 3) ''leave'' 1 (Some 1)],
      TimeOffRequest_seq := 1\<rparr>"

text \<open>
  Room R100 with class C1 from 23:00:00 for two hours; room R100 with a class from
  09:00:00 for one hour whose ID is the last value of the sequence.
\<close>

definition midnight_db :: database where
  "midnight_db = room_db
     \<lparr>Class := [class_row 1 ''C1'' ''1HR'' ''R100'' (hms 23 0 0) (hms 2 0 0)]\<rparr>"

definition last_id_db :: database where
  "last_id_db = room_db
     \<lparr>Class := [class_row 2147483647 ''C2147483647'' ''1HR'' ''R100'' (hms 9 0 0) (hms 1 0 0)]\<rparr>"

lemmas scenario_defs = empty_database_def staffA_def staffB_def Sub1_def Sub2_def available_def
  january_db_def pieced_db_def
  february_db_def request_row_def
  room_db_def accepts_all_def class_row_def
  student_row_def homeroom_db_def
  year_db_def two_requests_db_def
  committed_db_def
  midnight_db_def last_id_db_def

lemmas suggestSubstitutes_defs = suggestSubstitutes_def fetchone_def
  suggest_subs_validate_staff_plan_def assigned_sub_of_def suggest_subs_timeoff_request_plan_def
  request_dates_condition_def suggest_subs_assigned_plan_def substitute_join_availability_def
  suggest_subs_available_plan_def assigned_substitute_ids_def candidate_of_def

section \<open>The condition on request dates is closed-interval overlap\<close>

text \<open>
  Claim C8. The condition that the matcher applies to a stored request, with the three
  pairs of parameters bound to the asked range as \<open>retrieveOutput\<close> binds them, is, for
  two ranges that each start no later than they end, the closed-interval test
  \<open>startA \<le> endB \<and> startB \<le> endA\<close>; so it gives the same answer when the two ranges
  are exchanged.
\<close>

theorem request_dates_condition_closed_overlap:
  assumes "a_start \<le> a_end" and "b_start \<le> b_end"
  shows "(request_dates_condition a_start a_end b_start b_end b_start b_end b_start b_end
            \<longleftrightarrow> (a_start \<le> b_end \<and> b_start \<le> a_end))
         \<and> (request_dates_condition a_start a_end b_start b_end b_start b_end b_start b_end
            \<longleftrightarrow> request_dates_condition b_start b_end a_start a_end a_start a_end a_start a_end)"
  using assms unfolding request_dates_condition_def by auto

text \<open>Two ranges that share the single day 2025-02-03.\<close>

theorem request_dates_condition_closed_overlap_witness:
  "Date 2025 2 1 \<le> Date 2025 2 3 \<and> Date 2025 2 3 \<le> Date 2025 2 4
   \<and> request_dates_condition (Date 2025 2 1) (Date 2025 2 3) (Date 2025 2 3) (Date 2025 2 4)
        (Date 2025 2 3) (Date 2025 2 4) (Date 2025 2 3) (Date 2025 2 4)
   \<and> request_dates_condition (Date 2025 2 3) (Date 2025 2 4) (Date 2025 2 1) (Date 2025 2 3)
        (Date 2025 2 1) (Date 2025 2 3) (Date 2025 2 1) (Date 2025 2 3)"
proof -
  have a: "Date 2025 2 1 \<le> Date 2025 2 3" by (simp add: less_eq_date_def)
  have b: "Date 2025 2 3 \<le> Date 2025 2 4" by (simp add: less_eq_date_def)
  have c: "Date 2025 2 1 \<le> Date 2025 2 4" by (simp add: less_eq_date_def)
  have d: "Date 2025 2 3 \<le> Date 2025 2 3" by simp
  show ?thesis
    using a b c d request_dates_condition_closed_overlap [OF a b] by blast
qed

section \<open>Availability is coverage by a single row\<close>

text \<open>
  Claim C4. The count that \<open>requestTimeOff\<close> tests is non-zero exactly when one row of
  \<open>Availability\<close> of that substitute starts no later than the asked start and ends no
  earlier than the asked end; a substitute number that resolves is refused as unavailable
  exactly when there is no such row. With availability from 2025-01-01 to 2025-01-10 the
  substitute is available for 2025-01-05 to 2025-01-08, and suggested for it, and not
  for 2025-01-08 to 2025-01-12; a second row from 2025-01-09 to 2025-01-20, which together
  with the first would cover the latter range, does not make the substitute available
  for it.
\<close>

theorem check_substitute_availability_single_row:
  "(check_substitute_availability_plan db sid s e \<noteq> 0 \<longleftrightarrow>
      (\<exists>a \<in> set (Availability db).
         Availability_SubstituteID a = sid
         \<and> Availability_StartDate a \<le> s \<and> Availability_EndDate a \<ge> e))
   \<and> (n \<noteq> [] \<and> fetchone (validate_substitute_plan db n) = Some sub \<longrightarrow>
        (validate_substitute db (Some n) s e = Inl SubstituteUnavailable \<longleftrightarrow>
           \<not> (\<exists>a \<in> set (Availability db).
                 Availability_SubstituteID a = Substitute_ID sub
                 \<and> Availability_StartDate a \<le> s \<and> Availability_EndDate a \<ge> e)))
   \<and> check_substitute_availability_plan january_db 1 (Date 2025 1 5) (Date 2025 1 8) \<noteq> 0
   \<and> check_substitute_availability_plan january_db 1 (Date 2025 1 8) (Date 2025 1 12) = 0
   \<and> check_substitute_availability_plan pieced_db 1 (Date 2025 1 8) (Date 2025 1 12) = 0
   \<and> suggestSubstitutes january_db ''T001'' (Date 2025 1 5) (Date 2025 1 8)
       = Inr [candidate_of False (Sub1, available 1 (Date 2025 1 1) (Date 2025 1 10))]
   \<and> suggestSubstitutes january_db ''T001'' (Date 2025 1 8) (Date 2025 1 12) = Inr []"
proof -
  have count: "check_substitute_availability_plan db i s e \<noteq> 0 \<longleftrightarrow>
      (\<exists>a \<in> set (Availability db).
         Availability_SubstituteID a = i
         \<and> Availability_StartDate a \<le> s \<and> Availability_EndDate a \<ge> e)" for i
    unfolding check_substitute_availability_plan_def by (auto simp: filter_empty_conv)
  have gate: "validate_substitute db (Some n) s e = Inl SubstituteUnavailable \<longleftrightarrow>
           \<not> (\<exists>a \<in> set (Availability db).
                 Availability_SubstituteID a = Substitute_ID sub
                 \<and> Availability_StartDate a \<le> s \<and> Availability_EndDate a \<ge> e)"
    if "n \<noteq> [] \<and> fetchone (validate_substitute_plan db n) = Some sub"
  proof (cases "check_substitute_availability_plan db (Substitute_ID sub) s e = 0")
    case True
    with that have "validate_substitute db (Some n) s e = Inl SubstituteUnavailable"
      by (simp add: validate_substitute_def)
    with True show ?thesis using count [of "Substitute_ID sub"] by simp
  next
    case False
    with that have "validate_substitute db (Some n) s e = Inr (Some (Substitute_ID sub))"
      by (simp add: validate_substitute_def)
    with False show ?thesis using count [of "Substitute_ID sub"] by simp
  qed
  have "check_substitute_availability_plan january_db 1 (Date 2025 1 5) (Date 2025 1 8) \<noteq> 0"
    by (simp add: check_substitute_availability_plan_def scenario_defs less_eq_date_def)
  moreover have "check_substitute_availability_plan january_db 1 (Date 2025 1 8) (Date 2025 1 12) = 0"
    by (simp add: check_substitute_availability_plan_def scenario_defs less_eq_date_def)
  moreover have "check_substitute_availability_plan pieced_db 1 (Date 2025 1 8) (Date 2025 1 12) = 0"
    by (simp add: check_substitute_availability_plan_def scenario_defs less_eq_date_def)
  moreover have "suggestSubstitutes january_db ''T001'' (Date 2025 1 5) (Date 2025 1 8)
       = Inr [candidate_of False (Sub1, available 1 (Date 2025 1 1) (Date 2025 1 10))]"
    by (simp add: suggestSubstitutes_defs scenario_defs less_eq_date_def)
  moreover have "suggestSubstitutes january_db ''T001'' (Date 2025 1 8) (Date 2025 1 12) = Inr []"
    by (simp add: suggestSubstitutes_defs scenario_defs less_eq_date_def)
  ultimately show ?thesis using count [of sid] gate by blast
qed

text \<open>Sub1, by its number SUB1, in January.\<close>

theorem check_substitute_availability_single_row_witness:
  "''SUB1'' \<noteq> [] \<and> fetchone (validate_substitute_plan january_db ''SUB1'') = Some Sub1
   \<and> (\<exists>a \<in> set (Availability january_db).
        Availability_SubstituteID a = 1
        \<and> Availability_StartDate a \<le> Date 2025 1 5 \<and> Availability_EndDate a \<ge> Date 2025 1 8)
   \<and> validate_substitute january_db (Some ''SUB1'') (Date 2025 1 5) (Date 2025 1 8)
       \<noteq> Inl SubstituteUnavailable
   \<and> validate_substitute january_db (Some ''SUB1'') (Date 2025 1 8) (Date 2025 1 12)
       = Inl SubstituteUnavailable"
proof -
  have a: "fetchone (validate_substitute_plan january_db ''SUB1'') = Some Sub1"
    by (simp add: fetchone_def validate_substitute_plan_def scenario_defs)
  have b: "Substitute_ID Sub1 = 1"
    by (simp add: Sub1_def)
  have c: "\<not> (\<exists>a \<in> set (Availability january_db).
        Availability_SubstituteID a = 1
        \<and> Availability_StartDate a \<le> Date 2025 1 8 \<and> Availability_EndDate a \<ge> Date 2025 1 12)"
    by (simp add: scenario_defs less_eq_date_def)
  have d: "''SUB1'' \<noteq> []"
    by simp
  show ?thesis
    using a c d
      check_substitute_availability_single_row
        [of january_db 1 "Date 2025 1 5" "Date 2025 1 8" "''SUB1''" Sub1, unfolded b]
      check_substitute_availability_single_row
        [of january_db 1 "Date 2025 1 8" "Date 2025 1 12" "''SUB1''" Sub1, unfolded b]
    by blast
qed

section \<open>Reading the first row\<close>

lemma fetchone_Some_iff: "fetchone rows = Some r \<longleftrightarrow> (\<exists>rest. rows = r # rest)"
  by (cases rows) (auto simp: fetchone_def)

lemma fetchone_None_iff: "fetchone rows = None \<longleftrightarrow> rows = []"
  by (cases rows) (auto simp: fetchone_def)

lemma fetchone_mem: "fetchone rows = Some r \<Longrightarrow> r \<in> set rows"
  by (auto simp: fetchone_Some_iff)

section \<open>requestTimeOff does not compare the two dates\<close>

text \<open>The details of a request that is stored, for a staff member that is stored, are found.\<close>

lemma request_details_found:
  assumes "t \<in> set (TimeOffRequest db)" and "TimeOffRequest_ID t = rid"
      and "s \<in> set (Staff db)" and "TimeOffRequest_StaffID t = Staff_ID s"
  shows "get_time_off_request_plan db rid \<noteq> []"
proof -
  let ?subs = "filter (\<lambda>sub. TimeOffRequest_SubstituteID t = Some (Substitute_ID sub)) (Substitute db)"
  let ?rows = "case ?subs of [] \<Rightarrow> [(t, s, None)] | subs \<Rightarrow> map (\<lambda>sub. (t, s, Some sub)) subs"
  have "?rows \<noteq> []" by (cases ?subs) simp_all
  then obtain r where r: "r \<in> set ?rows" by (cases ?rows) auto
  have "r \<in> set (get_time_off_request_plan db rid)"
    unfolding get_time_off_request_plan_def using assms r
    by (auto intro!: bexI [of _ t] bexI [of _ s])
  then show ?thesis by auto
qed

text \<open>
  Claim C10. When the staff number resolves and no substitute is given, a request whose
  end date is earlier than its start date is stored, with the dates as given, and the
  outcome is a success.
\<close>

theorem requestTimeOff_inverted_range_persisted:
  assumes "fetchone (validate_staff_plan db staff_number) = Some staff_data"
      and "end_date' < start_date'"
  shows "\<exists>res. requestTimeOff db staff_number start_date' end_date' reason' None =
           (Inr res,
            db\<lparr>TimeOffRequest := TimeOffRequest db @
                  [\<lparr>TimeOffRequest_ID = TimeOffRequest_seq db + 1,
                    TimeOffRequest_StartDate = start_date',
                    TimeOffRequest_EndDate = end_date',
                    TimeOffRequest_Reason = reason',
                    TimeOffRequest_StaffID = Staff_ID staff_data,
                    TimeOffRequest_SubstituteID = None\<rparr>],
               TimeOffRequest_seq := TimeOffRequest_seq db + 1\<rparr>)"
proof -
  let ?row = "\<lparr>TimeOffRequest_ID = TimeOffRequest_seq db + 1,
                TimeOffRequest_StartDate = start_date',
                TimeOffRequest_EndDate = end_date',
                TimeOffRequest_Reason = reason',
                TimeOffRequest_StaffID = Staff_ID staff_data,
                TimeOffRequest_SubstituteID = None\<rparr>"
  let ?db' = "db\<lparr>TimeOffRequest := TimeOffRequest db @ [?row],
                 TimeOffRequest_seq := TimeOffRequest_seq db + 1\<rparr>"
  have ins: "insert_time_off_request_plan db start_date' end_date' reason' (Staff_ID staff_data) None
               = (TimeOffRequest_seq db + 1, ?db')"
    by (simp add: insert_time_off_request_plan_def Let_def)
  have "staff_data \<in> set (Staff db)"
    using assms(1) by (auto dest: fetchone_mem simp: validate_staff_plan_def)
  then have "get_time_off_request_plan ?db' (TimeOffRequest_seq db + 1) \<noteq> []"
    by (intro request_details_found [of ?row _ _ staff_data]) simp_all
  then obtain d where d: "fetchone (get_time_off_request_plan ?db' (TimeOffRequest_seq db + 1)) = Some d"
    by (cases "get_time_off_request_plan ?db' (TimeOffRequest_seq db + 1)") (auto simp: fetchone_def)
  show ?thesis
    by (simp add: requestTimeOff_def assms(1) validate_substitute_def ins d)
qed

text \<open>A request of staff member T001 from 2025-03-09 to 2025-03-01.\<close>

theorem requestTimeOff_inverted_range_persisted_witness:
  "Date 2025 3 1 < Date 2025 3 9
   \<and> (\<exists>res. requestTimeOff january_db ''T001'' (Date 2025 3 9) (Date 2025 3 1) ''leave'' None =
        (Inr res,
         january_db\<lparr>TimeOffRequest := [request_row 1 (Date 2025 3 9) (Date 2025 3 1) ''leave'' 1 None],
                    TimeOffRequest_seq := 1\<rparr>))"
proof -
  have a: "fetchone (validate_staff_plan january_db ''T001'') = Some staffA"
    by (simp add: fetchone_def validate_staff_plan_def scenario_defs)
  have b: "Date 2025 3 1 < Date 2025 3 9" by (simp add: less_date_def)
  show ?thesis
    using b requestTimeOff_inverted_range_persisted [OF a b, of "''leave''"]
    by (simp add: scenario_defs)
qed

section \<open>requestTimeOff and a substitute who is already committed\<close>

text \<open>
  The validation of the substitute reads the tables \<open>Substitute\<close> and \<open>Availability\<close>
  only: the stored requests have no part in it.
\<close>

lemma validate_substitute_ignores_requests:
  "validate_substitute (db\<lparr>TimeOffRequest := requests, TimeOffRequest_seq := n\<rparr>) sn s e
     = validate_substitute db sn s e"
proof -
  let ?db' = "db\<lparr>TimeOffRequest := requests, TimeOffRequest_seq := n\<rparr>"
  have "validate_substitute_plan ?db' x = validate_substitute_plan db x" for x
    by (simp add: validate_substitute_plan_def)
  moreover have "check_substitute_availability_plan ?db' i s e
                   = check_substitute_availability_plan db i s e" for i
    by (simp add: check_substitute_availability_plan_def)
  ultimately show ?thesis
    by (simp only: validate_substitute_def)
qed

text \<open>
  Claim C1. Sub1 is available for the whole of 2025. The request of staff member T001
  from 2025-02-01 to 2025-02-03 with Sub1 succeeds and is stored. In the database it
  leaves, the request of staff member T002 from 2025-02-02 to 2025-02-04 with Sub1
  succeeds as well and is stored: the outcome is not \<open>SubstituteUnavailable\<close>, and Sub1 is
  committed to two requests whose ranges overlap.
\<close>

theorem requestTimeOff_commits_substitute_twice:
  "requestTimeOff february_db ''T001'' (Date 2025 2 1) (Date 2025 2 3) ''leave'' (Some ''SUB1'')
     = (Inr \<lparr>request_id = 1, start_date = Date 2025 2 1, end_date = Date 2025 2 3,
             reason = ''leave'',
             staff = \<lparr>ref_number = ''T001'', ref_name = ''Ada Moss''\<rparr>,
             substitute = Some \<lparr>ref_number = ''SUB1'', ref_name = ''Cleo Young''\<rparr>\<rparr>,
        february_db\<lparr>TimeOffRequest :=
                       [request_row 1 (Date 2025 2 1) (Date 2025 2 3) ''leave'' 1 (Some 1)],
                    TimeOffRequest_seq := 1\<rparr>)
   \<and> requestTimeOff
        (february_db\<lparr>TimeOffRequest :=
                       [request_row 1 (Date 2025 2 1) (Date 2025 2 3) ''leave'' 1 (Some 1)],
                     TimeOffRequest_seq := 1\<rparr>)
        ''T002'' (Date 2025 2 2) (Date 2025 2 4) ''leave'' (Some ''SUB1'')
     = (Inr \<lparr>request_id = 2, start_date = Date 2025 2 2, end_date = Date 2025 2 4,
             reason = ''leave'',
             staff = \<lparr>ref_number = ''T002'', ref_name = ''Ben Reed''\<rparr>,
             substitute = Some \<lparr>ref_number = ''SUB1'', ref_name = ''Cleo Young''\<rparr>\<rparr>,
        february_db\<lparr>TimeOffRequest :=
                       [request_row 1 (Date 2025 2 1) (Date 2025 2 3) ''leave'' 1 (Some 1),
                        request_row 2 (Date 2025 2 2) (Date 2025 2 4) ''leave'' 2 (Some 1)],
                    TimeOffRequest_seq := 2\<rparr>)"
  by (simp add: requestTimeOff_def validate_substitute_def fetchone_def validate_staff_plan_def
      validate_substitute_plan_def check_substitute_availability_plan_def
      insert_time_off_request_plan_def get_time_off_request_plan_def request_details_result_def
      scenario_defs less_eq_date_def Let_def)

section \<open>addClass and the overlapping slots\<close>




text \<open>The three ways in which \<open>addClass\<close> ends once the sequence is set.\<close>

lemma addClass_no_sequence:
  "setval_class_id db = None \<Longrightarrow> addClass accepts db room ct st du = (Inl ErrorCreatingClass, db)"
  by (simp add: addClass_def)




lemmas addClass_defs = addClass_def fetchone_def check_room_availability_plan_def
  insert_class_plan_v5_def setval_class_id_def INT4_MAX_def str_int_def time_pl_interval_def
  hms_def USECS_PER_DAY_def Let_def



text \<open>
  The scenario of room R100: a class from 09:00:00 for one hour is created as C1; a class
  from 09:30:00 for one hour is then refused; a class from 10:00:00 for half an hour is
  created as C2.
\<close>

lemma addClass_R100_first:
  "addClass accepts_all room_db ''R100'' ''1HR'' (hms 9 0 0) (hms 1 0 0) =
     (Inr \<lparr>cd_number = ''C1'', cd_room_number = ''R100'',
           cd_start_time = hms 9 0 0, cd_duration = hms 1 0 0\<rparr>,
      room_db\<lparr>Class := [class_row 1 ''C1'' ''1HR'' ''R100'' (hms 9 0 0) (hms 1 0 0)]\<rparr>)"
  by (simp add: addClass_defs scenario_defs)


section \<open>The inserts of fillClass\<close>

lemmas fillClass_defs = fillClass_def fetchone_def get_class_id_plan_def get_staff_id_plan_def
  get_student_id_plan_def on_conflict_do_nothing_def insert_staff_plan_def insert_student_plan_def
  get_class_assignments_plan_def get_class_details_plan_def get_eligible_students_plan_def
  enroll_student_def enroll_students_def Let_def

lemma on_conflict_do_nothing_set [simp]:
  "set (on_conflict_do_nothing row rows) = insert row (set rows)"
  by (auto simp: on_conflict_do_nothing_def)

lemma on_conflict_do_nothing_present:
  "row \<in> set rows \<Longrightarrow> on_conflict_do_nothing row rows = rows"
  by (simp add: on_conflict_do_nothing_def)

lemma insert_staff_plan_present:
  "(a, b) \<in> set (StaffToClass db) \<Longrightarrow> insert_staff_plan db a b = db"
  by (simp add: insert_staff_plan_def on_conflict_do_nothing_present)

lemma insert_student_plan_present:
  "(a, b) \<in> set (StudentToClass db) \<Longrightarrow> insert_student_plan db a b = db"
  by (simp add: insert_student_plan_def on_conflict_do_nothing_present)

lemma insert_staff_plan_tables [simp]:
  "Staff (insert_staff_plan db a b) = Staff db"
  "Class (insert_staff_plan db a b) = Class db"
  "ClassType (insert_staff_plan db a b) = ClassType db"
  "Student (insert_staff_plan db a b) = Student db"
  "StudentToClass (insert_staff_plan db a b) = StudentToClass db"
  "set (StaffToClass (insert_staff_plan db a b)) = insert (a, b) (set (StaffToClass db))"
  by (simp_all add: insert_staff_plan_def)

lemma enroll_student_tables [simp]:
  "Staff (enroll_student cid n db) = Staff db"
  "Class (enroll_student cid n db) = Class db"
  "ClassType (enroll_student cid n db) = ClassType db"
  "Student (enroll_student cid n db) = Student db"
  "StaffToClass (enroll_student cid n db) = StaffToClass db"
  by (simp_all add: enroll_student_def insert_student_plan_def split: option.splits)

lemma enroll_students_tables [simp]:
  "Staff (enroll_students cid ns db) = Staff db"
  "Class (enroll_students cid ns db) = Class db"
  "ClassType (enroll_students cid ns db) = ClassType db"
  "Student (enroll_students cid ns db) = Student db"
  "StaffToClass (enroll_students cid ns db) = StaffToClass db"
  unfolding enroll_students_def by (induction ns arbitrary: db; simp)+

lemma get_student_id_plan_cong:
  "Student db' = Student db \<Longrightarrow> get_student_id_plan db' n = get_student_id_plan db n"
  by (simp add: get_student_id_plan_def)

lemma enroll_student_StudentToClass:
  "set (StudentToClass (enroll_student cid n db)) =
     set (StudentToClass db) \<union> {(sid, cid) | sid. fetchone (get_student_id_plan db n) = Some sid}"
  by (auto simp: enroll_student_def insert_student_plan_def split: option.splits)

lemma enroll_students_StudentToClass:
  "set (StudentToClass (enroll_students cid ns db)) =
     set (StudentToClass db) \<union>
     {(sid, cid) | sid n. n \<in> set ns \<and> fetchone (get_student_id_plan db n) = Some sid}"
proof (induction ns arbitrary: db)
  case Nil
  then show ?case by (simp add: enroll_students_def)
next
  case (Cons n ns)
  have step: "enroll_students cid (n # ns) db = enroll_students cid ns (enroll_student cid n db)"
    by (simp add: enroll_students_def)
  have same: "get_student_id_plan (enroll_student cid n db) m = get_student_id_plan db m" for m
    by (rule get_student_id_plan_cong) simp
  show ?case
    unfolding step Cons.IH same enroll_student_StudentToClass by auto
qed

lemma enroll_students_present:
  assumes "\<And>n sid. n \<in> set ns \<Longrightarrow> fetchone (get_student_id_plan db n) = Some sid
             \<Longrightarrow> (sid, cid) \<in> set (StudentToClass db)"
  shows "enroll_students cid ns db = db"
  using assms
proof (induction ns)
  case Nil
  then show ?case by (simp add: enroll_students_def)
next
  case (Cons n ns)
  have one: "enroll_student cid n db = db"
    using Cons.prems [of n]
    by (auto simp: enroll_student_def insert_student_plan_present split: option.splits)
  have "enroll_students cid (n # ns) db = enroll_students cid ns (enroll_student cid n db)"
    by (simp add: enroll_students_def)
  also have "\<dots> = enroll_students cid ns db" by (simp only: one)
  also have "\<dots> = db" using Cons.prems by (intro Cons.IH) auto
  finally show ?case .
qed
lemma get_eligible_students_plan_mono:
  assumes "Student db' = Student db" and "Class db' = Class db"
      and "set (StudentToClass db) \<subseteq> set (StudentToClass db')"
  shows "set (get_eligible_students_plan db' g cn) \<subseteq> set (get_eligible_students_plan db g cn)"
  using assms unfolding get_eligible_students_plan_def by auto

lemma fillClass_run:
  assumes "fetchone (get_class_id_plan d cn) = Some cid"
      and "fetchone (get_staff_id_plan d sn) = Some sid"
      and "fetchone (get_class_details_plan (insert_staff_plan d sid cid) cn) = Some (st, du, g)"
  shows "fillClass d cn sn =
           (Inr (get_class_assignments_plan
                   (enroll_students cid
                      (get_eligible_students_plan (insert_staff_plan d sid cid) g cn)
                      (insert_staff_plan d sid cid)) cn),
            enroll_students cid
              (get_eligible_students_plan (insert_staff_plan d sid cid) g cn)
              (insert_staff_plan d sid cid))"
  using assms by (simp add: fillClass_def Let_def)

lemma fillClass_no_details:
  assumes "fetchone (get_class_id_plan d cn) = Some cid"
      and "fetchone (get_staff_id_plan d sn) = Some sid"
      and "fetchone (get_class_details_plan (insert_staff_plan d sid cid) cn) = None"
  shows "fillClass d cn sn = (Inl ClassDetailsNotRetrieved, insert_staff_plan d sid cid)"
  using assms by (simp add: fillClass_def Let_def)

lemma get_class_id_plan_cong:
  "Class db' = Class db \<Longrightarrow> get_class_id_plan db' n = get_class_id_plan db n"
  by (simp add: get_class_id_plan_def)

lemma get_staff_id_plan_cong:
  "Staff db' = Staff db \<Longrightarrow> get_staff_id_plan db' n = get_staff_id_plan db n"
  by (simp add: get_staff_id_plan_def)

lemma get_class_details_plan_cong:
  "Class db' = Class db \<Longrightarrow> ClassType db' = ClassType db
     \<Longrightarrow> get_class_details_plan db' n = get_class_details_plan db n"
  by (simp add: get_class_details_plan_def)

section \<open>fillClass run twice\<close>

text \<open>
  Claim C6. Running \<open>fillClass\<close> again with the same class and staff numbers, in the
  database the first run has left, gives the outcome of the first run, the roster
  included, and leaves that database as it is. An insert of a staff assignment or of an
  enrollment that is already stored changes nothing.
\<close>

theorem fillClass_twice_same:
  "fillClass (snd (fillClass db class_number staff_number)) class_number staff_number
     = fillClass db class_number staff_number
   \<and> ((a, b) \<in> set (StaffToClass db) \<longrightarrow> insert_staff_plan db a b = db)
   \<and> ((a, b) \<in> set (StudentToClass db) \<longrightarrow> insert_student_plan db a b = db)"
proof (intro conjI impI)
  show "insert_staff_plan db a b = db" if "(a, b) \<in> set (StaffToClass db)"
    using that by (rule insert_staff_plan_present)
  show "insert_student_plan db a b = db" if "(a, b) \<in> set (StudentToClass db)"
    using that by (rule insert_student_plan_present)
  show "fillClass (snd (fillClass db class_number staff_number)) class_number staff_number
     = fillClass db class_number staff_number"
  proof (cases "fetchone (get_class_id_plan db class_number)")
    case None
    then have "fillClass db class_number staff_number = (Inl ClassNotFound, db)"
      by (simp add: fillClass_def)
    then show ?thesis by simp
  next
    case cid: (Some cid)
    show ?thesis
    proof (cases "fetchone (get_staff_id_plan db staff_number)")
      case None
      with cid have "fillClass db class_number staff_number = (Inl StaffNotFound, db)"
        by (simp add: fillClass_def)
      then show ?thesis by simp
    next
      case sid: (Some sid)
      define db1 where "db1 = insert_staff_plan db sid cid"
      have staff_in: "(sid, cid) \<in> set (StaffToClass db1)"
        by (simp add: db1_def)
      show ?thesis
      proof (cases "fetchone (get_class_details_plan db1 class_number)")
        case None
        have first: "fillClass db class_number staff_number = (Inl ClassDetailsNotRetrieved, db1)"
          using cid sid None unfolding db1_def by (rule fillClass_no_details)
        have c1: "fetchone (get_class_id_plan db1 class_number) = Some cid"
          using cid get_class_id_plan_cong [of db1 db class_number] by (simp add: db1_def)
        have s1: "fetchone (get_staff_id_plan db1 staff_number) = Some sid"
          using sid get_staff_id_plan_cong [of db1 db staff_number] by (simp add: db1_def)
        have again: "insert_staff_plan db1 sid cid = db1"
          using staff_in by (rule insert_staff_plan_present)
        have "fillClass db1 class_number staff_number = (Inl ClassDetailsNotRetrieved, db1)"
          using fillClass_no_details [OF c1 s1] None by (simp add: again)
        with first show ?thesis by simp
      next
        case (Some details)
        obtain st du g where details: "details = (st, du, g)" by (cases details)
        define E where "E = get_eligible_students_plan db1 g class_number"
        define db2 where "db2 = enroll_students cid E db1"
        have first: "fillClass db class_number staff_number
                       = (Inr (get_class_assignments_plan db2 class_number), db2)"
          using fillClass_run [OF cid sid, of st du g] Some
          by (simp add: details db1_def db2_def E_def)
        have c2: "fetchone (get_class_id_plan db2 class_number) = Some cid"
          using cid get_class_id_plan_cong [of db2 db class_number] by (simp add: db2_def db1_def)
        have s2: "fetchone (get_staff_id_plan db2 staff_number) = Some sid"
          using sid get_staff_id_plan_cong [of db2 db staff_number] by (simp add: db2_def db1_def)
        have again: "insert_staff_plan db2 sid cid = db2"
          using staff_in by (intro insert_staff_plan_present) (simp add: db2_def)
        have d2: "fetchone (get_class_details_plan db2 class_number) = Some (st, du, g)"
          using Some get_class_details_plan_cong [of db2 db1 class_number]
          by (simp add: details db2_def)
        have sub: "set (get_eligible_students_plan db2 g class_number) \<subseteq> set E"
          unfolding E_def
          by (rule get_eligible_students_plan_mono)
             (auto simp: db2_def enroll_students_StudentToClass)
        have enrolled: "enroll_students cid (get_eligible_students_plan db2 g class_number) db2 = db2"
        proof (rule enroll_students_present)
          fix n s
          assume n: "n \<in> set (get_eligible_students_plan db2 g class_number)"
             and s: "fetchone (get_student_id_plan db2 n) = Some s"
          have "get_student_id_plan db2 n = get_student_id_plan db1 n"
            by (rule get_student_id_plan_cong) (simp add: db2_def)
          with s have "fetchone (get_student_id_plan db1 n) = Some s" by simp
          moreover have "n \<in> set E" using n sub by blast
          ultimately show "(s, cid) \<in> set (StudentToClass db2)"
            unfolding db2_def enroll_students_StudentToClass by blast
        qed
        have "fillClass db2 class_number staff_number
                = (Inr (get_class_assignments_plan db2 class_number), db2)"
          using fillClass_run [OF c2 s2, of st du g] d2 by (simp add: again enrolled)
        with first show ?thesis by simp
      qed
    qed
  qed
qed

text \<open>Filling class C2 with staff member T001, twice.\<close>

theorem fillClass_twice_same_witness:
  "fillClass homeroom_db ''C2'' ''T001''
     = (Inr [(''S2'', ''student''), (''T001'', ''staff'')],
        homeroom_db\<lparr>StaffToClass := [(1, 2)], StudentToClass := [(1, 1), (2, 2)]\<rparr>)
   \<and> fillClass (homeroom_db\<lparr>StaffToClass := [(1, 2)], StudentToClass := [(1, 1), (2, 2)]\<rparr>)
        ''C2'' ''T001''
     = (Inr [(''S2'', ''student''), (''T001'', ''staff'')],
        homeroom_db\<lparr>StaffToClass := [(1, 2)], StudentToClass := [(1, 1), (2, 2)]\<rparr>)
   \<and> (1, 2) \<in> set (StaffToClass
                      (homeroom_db\<lparr>StaffToClass := [(1, 2)], StudentToClass := [(1, 1), (2, 2)]\<rparr>))
   \<and> insert_staff_plan
        (homeroom_db\<lparr>StaffToClass := [(1, 2)], StudentToClass := [(1, 1), (2, 2)]\<rparr>) 1 2
     = homeroom_db\<lparr>StaffToClass := [(1, 2)], StudentToClass := [(1, 1), (2, 2)]\<rparr>
   \<and> (2, 2) \<in> set (StudentToClass
                      (homeroom_db\<lparr>StaffToClass := [(1, 2)], StudentToClass := [(1, 1), (2, 2)]\<rparr>))
   \<and> insert_student_plan
        (homeroom_db\<lparr>StaffToClass := [(1, 2)], StudentToClass := [(1, 1), (2, 2)]\<rparr>) 2 2
     = homeroom_db\<lparr>StaffToClass := [(1, 2)], StudentToClass := [(1, 1), (2, 2)]\<rparr>"
proof -
  have first: "fillClass homeroom_db ''C2'' ''T001''
     = (Inr [(''S2'', ''student''), (''T001'', ''staff'')],
        homeroom_db\<lparr>StaffToClass := [(1, 2)], StudentToClass := [(1, 1), (2, 2)]\<rparr>)"
    by (simp add: fillClass_defs scenario_defs)
  have staff: "(1, 2) \<in> set (StaffToClass
                      (homeroom_db\<lparr>StaffToClass := [(1, 2)], StudentToClass := [(1, 1), (2, 2)]\<rparr>))"
    by simp
  have student: "(2, 2) \<in> set (StudentToClass
                      (homeroom_db\<lparr>StaffToClass := [(1, 2)], StudentToClass := [(1, 1), (2, 2)]\<rparr>))"
    by simp
  show ?thesis
    using first staff student
      fillClass_twice_same [of homeroom_db "''C2''" "''T001''" 1 2]
      fillClass_twice_same
        [of "homeroom_db\<lparr>StaffToClass := [(1, 2)], StudentToClass := [(1, 1), (2, 2)]\<rparr>"
            "''C2''" "''T001''" 1 2]
      fillClass_twice_same
        [of "homeroom_db\<lparr>StaffToClass := [(1, 2)], StudentToClass := [(1, 1), (2, 2)]\<rparr>"
            "''C2''" "''T001''" 2 2]
    by simp
qed

section \<open>The students that fillClass enrolls\<close>

lemma filter_key_distinct:
  assumes "distinct (map f xs)" and "x \<in> set xs"
  shows "filter (\<lambda>y. f y = f x) xs = [x]"
  using assms
proof (induction xs)
  case Nil
  then show ?case by simp
next
  case (Cons a xs)
  show ?case
  proof (cases "a = x")
    case True
    have "f x \<notin> f ` set xs"
      using Cons.prems(1) True by simp
    then have "\<forall>y \<in> set xs. f y \<noteq> f x"
      by (metis imageI)
    then have "filter (\<lambda>y. f y = f x) xs = []"
      by (simp add: filter_empty_conv)
    with True show ?thesis by simp
  next
    case False
    with Cons.prems have "x \<in> set xs" and "f a \<noteq> f x" by auto
    with Cons show ?thesis by simp
  qed
qed

lemma get_student_id_plan_distinct:
  assumes "distinct (map Student_Number (Student db))" and "s \<in> set (Student db)"
  shows "get_student_id_plan db (Student_Number s) = [Student_ID s]"
  unfolding get_student_id_plan_def using filter_key_distinct [OF assms] by simp

lemma get_eligible_students_plan_mem:
  assumes "distinct (map Student_Number (Student db))" and "s \<in> set (Student db)"
  shows "Student_Number s \<in> set (get_eligible_students_plan db g cn) \<longleftrightarrow>
           Student_Grade s = g
           \<and> \<not> (\<exists>c \<in> set (Class db).
                  (Student_ID s, Class_ID c) \<in> set (StudentToClass db)
                  \<and> like_contains ''HR'' (Class_ClassTypeID c)
                  \<and> Class_Number c \<noteq> cn)"
proof -
  define P where "P = (\<lambda>x :: Student_row. Student_Grade x = g
           \<and> \<not> (\<exists>stc \<in> set (StudentToClass db). \<exists>c \<in> set (Class db).
                  snd stc = Class_ID c \<and> Student_ID x = fst stc
                  \<and> like_contains ''HR'' (Class_ClassTypeID c) \<and> Class_Number c \<noteq> cn))"
  have el: "get_eligible_students_plan db g cn = map Student_Number (filter P (Student db))"
    unfolding get_eligible_students_plan_def P_def by (rule refl)
  have inj: "s' = s" if "s' \<in> set (Student db)" and "Student_Number s' = Student_Number s" for s'
    using assms that by (meson distinct_map inj_onD)
  have "Student_Number s \<in> set (get_eligible_students_plan db g cn) \<longleftrightarrow> P s"
  proof
    assume "Student_Number s \<in> set (get_eligible_students_plan db g cn)"
    then obtain s' where "s' \<in> set (Student db)" "P s'" "Student_Number s' = Student_Number s"
      unfolding el by auto
    with inj show "P s" by blast
  next
    assume "P s"
    with assms(2) show "Student_Number s \<in> set (get_eligible_students_plan db g cn)"
      unfolding el by auto
  qed
  also have "P s \<longleftrightarrow> Student_Grade s = g
           \<and> \<not> (\<exists>c \<in> set (Class db).
                  (Student_ID s, Class_ID c) \<in> set (StudentToClass db)
                  \<and> like_contains ''HR'' (Class_ClassTypeID c)
                  \<and> Class_Number c \<noteq> cn)"
  proof -
    have "(\<exists>stc \<in> set (StudentToClass db). \<exists>c \<in> set (Class db).
                  snd stc = Class_ID c \<and> Student_ID s = fst stc
                  \<and> like_contains ''HR'' (Class_ClassTypeID c) \<and> Class_Number c \<noteq> cn)
          \<longleftrightarrow> (\<exists>c \<in> set (Class db).
                  (Student_ID s, Class_ID c) \<in> set (StudentToClass db)
                  \<and> like_contains ''HR'' (Class_ClassTypeID c)
                  \<and> Class_Number c \<noteq> cn)" (is "?A \<longleftrightarrow> ?B")
    proof
      assume ?A
      then obtain stc c where f: "stc \<in> set (StudentToClass db)" "c \<in> set (Class db)"
        "snd stc = Class_ID c" "Student_ID s = fst stc"
        "like_contains ''HR'' (Class_ClassTypeID c)" "Class_Number c \<noteq> cn" by blast
      have "stc = (Student_ID s, Class_ID c)"
        using f(3,4) by (simp add: prod_eq_iff)
      with f show ?B by blast
    next
      assume ?B
      then obtain c where c: "c \<in> set (Class db)"
        "(Student_ID s, Class_ID c) \<in> set (StudentToClass db)"
        "like_contains ''HR'' (Class_ClassTypeID c)" "Class_Number c \<noteq> cn" by blast
      show ?A
        by (rule bexI [OF _ c(2)], rule bexI [OF _ c(1)]) (use c in simp)
    qed
    then show ?thesis unfolding P_def by simp
  qed
  finally show ?thesis .
qed

lemma get_eligible_students_plan_numbers:
  "n \<in> set (get_eligible_students_plan db g cn) \<Longrightarrow> \<exists>s \<in> set (Student db). Student_Number s = n"
  unfolding get_eligible_students_plan_def by auto

lemma get_eligible_students_plan_cong:
  "Student db' = Student db \<Longrightarrow> Class db' = Class db \<Longrightarrow> StudentToClass db' = StudentToClass db
     \<Longrightarrow> get_eligible_students_plan db' g cn = get_eligible_students_plan db g cn"
  by (simp add: get_eligible_students_plan_def)

text \<open>
  Claim C3. Let the class number and the staff number resolve, let the details of the
  class be found with grade \<open>g\<close>, and let student numbers be unique. Then \<open>g\<close> is the
  first character of the class type of a class with that number, and the enrollments
  after \<open>fillClass\<close> are those before together with one enrollment in the class for
  each student whose grade is \<open>g\<close> and who is not enrolled in a class with another number
  whose class type contains HR. A student enrolled in such a class is not among the
  eligible students.
\<close>

theorem fillClass_enrolls_eligible:
  assumes numbers: "distinct (map Student_Number (Student db))"
      and cid: "fetchone (get_class_id_plan db class_number) = Some class_id"
      and sid: "fetchone (get_staff_id_plan db staff_number) = Some staff_id"
      and det: "fetchone (get_class_details_plan db class_number) = Some (st, du, g)"
  shows "(\<exists>c \<in> set (Class db). Class_Number c = class_number \<and> g = take 1 (Class_ClassTypeID c))
    \<and> set (StudentToClass (snd (fillClass db class_number staff_number))) =
        set (StudentToClass db) \<union>
        {(Student_ID s, class_id) | s.
           s \<in> set (Student db) \<and> Student_Grade s = g
           \<and> \<not> (\<exists>c \<in> set (Class db).
                  (Student_ID s, Class_ID c) \<in> set (StudentToClass db)
                  \<and> like_contains ''HR'' (Class_ClassTypeID c)
                  \<and> Class_Number c \<noteq> class_number)}
    \<and> (\<forall>s \<in> set (Student db). \<forall>h \<in> set (Class db).
          (Student_ID s, Class_ID h) \<in> set (StudentToClass db)
          \<and> like_contains ''HR'' (Class_ClassTypeID h)
          \<and> Class_Number h \<noteq> class_number
          \<longrightarrow> Student_Number s \<notin> set (get_eligible_students_plan db g class_number))"
proof (intro conjI ballI impI)
  have "(st, du, g) \<in> set (get_class_details_plan db class_number)"
    using det by (rule fetchone_mem)
  then show "\<exists>c \<in> set (Class db). Class_Number c = class_number \<and> g = take 1 (Class_ClassTypeID c)"
    unfolding get_class_details_plan_def by auto
next
  define db1 where "db1 = insert_staff_plan db staff_id class_id"
  have d1: "fetchone (get_class_details_plan db1 class_number) = Some (st, du, g)"
    using det get_class_details_plan_cong [of db1 db class_number] by (simp add: db1_def)
  have e1: "get_eligible_students_plan db1 g class_number = get_eligible_students_plan db g class_number"
    by (rule get_eligible_students_plan_cong) (simp_all add: db1_def)
  have look: "get_student_id_plan db1 n = get_student_id_plan db n" for n
    by (rule get_student_id_plan_cong) (simp add: db1_def)
  have stc1: "StudentToClass db1 = StudentToClass db"
    by (simp add: db1_def)
  have "snd (fillClass db class_number staff_number)
          = enroll_students class_id (get_eligible_students_plan db1 g class_number) db1"
    using fillClass_run [OF cid sid, of st du g] d1 unfolding db1_def by simp
  then have "snd (fillClass db class_number staff_number)
          = enroll_students class_id (get_eligible_students_plan db g class_number) db1"
    by (simp only: e1)
  then have "set (StudentToClass (snd (fillClass db class_number staff_number))) =
      set (StudentToClass db) \<union>
      {(i, class_id) | i n. n \<in> set (get_eligible_students_plan db g class_number)
                            \<and> fetchone (get_student_id_plan db n) = Some i}"
    by (simp only: enroll_students_StudentToClass look stc1)
  also have "{(i, class_id) | i n. n \<in> set (get_eligible_students_plan db g class_number)
                            \<and> fetchone (get_student_id_plan db n) = Some i} =
        {(Student_ID s, class_id) | s.
           s \<in> set (Student db) \<and> Student_Grade s = g
           \<and> \<not> (\<exists>c \<in> set (Class db).
                  (Student_ID s, Class_ID c) \<in> set (StudentToClass db)
                  \<and> like_contains ''HR'' (Class_ClassTypeID c)
                  \<and> Class_Number c \<noteq> class_number)}" (is "?L = ?R")
  proof (intro set_eqI iffI)
    fix p assume "p \<in> ?L"
    then obtain i n where p: "p = (i, class_id)"
      and n: "n \<in> set (get_eligible_students_plan db g class_number)"
      and i: "fetchone (get_student_id_plan db n) = Some i" by auto
    from n obtain s where s: "s \<in> set (Student db)" "Student_Number s = n"
      using get_eligible_students_plan_numbers by blast
    have "i = Student_ID s"
      using i get_student_id_plan_distinct [OF numbers s(1)] s(2) by (simp add: fetchone_def)
    moreover have "Student_Grade s = g
           \<and> \<not> (\<exists>c \<in> set (Class db).
                  (Student_ID s, Class_ID c) \<in> set (StudentToClass db)
                  \<and> like_contains ''HR'' (Class_ClassTypeID c)
                  \<and> Class_Number c \<noteq> class_number)"
      using n s get_eligible_students_plan_mem [OF numbers s(1), of g class_number] by simp
    ultimately show "p \<in> ?R" using p s(1) by blast
  next
    fix p assume "p \<in> ?R"
    then obtain s where p: "p = (Student_ID s, class_id)" and s: "s \<in> set (Student db)"
      and el: "Student_Grade s = g
           \<and> \<not> (\<exists>c \<in> set (Class db).
                  (Student_ID s, Class_ID c) \<in> set (StudentToClass db)
                  \<and> like_contains ''HR'' (Class_ClassTypeID c)
                  \<and> Class_Number c \<noteq> class_number)" by auto
    have "Student_Number s \<in> set (get_eligible_students_plan db g class_number)"
      using el get_eligible_students_plan_mem [OF numbers s, of g class_number] by simp
    moreover have "fetchone (get_student_id_plan db (Student_Number s)) = Some (Student_ID s)"
      using get_student_id_plan_distinct [OF numbers s] by (simp add: fetchone_def)
    ultimately show "p \<in> ?L" using p by blast
  qed
  finally show "set (StudentToClass (snd (fillClass db class_number staff_number))) =
        set (StudentToClass db) \<union>
        {(Student_ID s, class_id) | s.
           s \<in> set (Student db) \<and> Student_Grade s = g
           \<and> \<not> (\<exists>c \<in> set (Class db).
                  (Student_ID s, Class_ID c) \<in> set (StudentToClass db)
                  \<and> like_contains ''HR'' (Class_ClassTypeID c)
                  \<and> Class_Number c \<noteq> class_number)}" .
next
  fix s h
  assume s: "s \<in> set (Student db)" and h: "h \<in> set (Class db)"
    and e: "(Student_ID s, Class_ID h) \<in> set (StudentToClass db)
          \<and> like_contains ''HR'' (Class_ClassTypeID h)
          \<and> Class_Number h \<noteq> class_number"
  show "Student_Number s \<notin> set (get_eligible_students_plan db g class_number)"
    using h e get_eligible_students_plan_mem [OF numbers s, of g class_number] by blast
qed

text \<open>
  Filling the homeroom class C2 of grade 3: S1 is enrolled in the homeroom class C1 and
  is left out, S2 is enrolled, S3 is of grade 4.
\<close>

theorem fillClass_enrolls_eligible_witness:
  "distinct (map Student_Number (Student homeroom_db))
   \<and> fetchone (get_class_id_plan homeroom_db ''C2'') = Some 2
   \<and> fetchone (get_staff_id_plan homeroom_db ''T001'') = Some 1
   \<and> fetchone (get_class_details_plan homeroom_db ''C2'') = Some (hms 9 0 0, hms 1 0 0, ''3'')
   \<and> set (StudentToClass (snd (fillClass homeroom_db ''C2'' ''T001''))) = {(1, 1), (2, 2)}
   \<and> ''S1'' \<notin> set (get_eligible_students_plan homeroom_db ''3'' ''C2'')"
proof -
  have a: "distinct (map Student_Number (Student homeroom_db))"
    by (simp add: scenario_defs)
  have b: "fetchone (get_class_id_plan homeroom_db ''C2'') = Some 2"
    by (simp add: fillClass_defs scenario_defs)
  have c: "fetchone (get_staff_id_plan homeroom_db ''T001'') = Some 1"
    by (simp add: fillClass_defs scenario_defs)
  have d: "fetchone (get_class_details_plan homeroom_db ''C2'') = Some (hms 9 0 0, hms 1 0 0, ''3'')"
    by (simp add: fillClass_defs scenario_defs)
  have e: "set (StudentToClass homeroom_db) = {(1, 1)}"
    by (simp add: scenario_defs)
  have f: "get_eligible_students_plan homeroom_db ''3'' ''C2'' = [''S2'']"
    by (simp add: fillClass_defs scenario_defs)
  have g: "fillClass homeroom_db ''C2'' ''T001''
     = (Inr [(''S2'', ''student''), (''T001'', ''staff'')],
        homeroom_db\<lparr>StaffToClass := [(1, 2)], StudentToClass := [(1, 1), (2, 2)]\<rparr>)"
    by (simp add: fillClass_defs scenario_defs)
  show ?thesis
    using a b c d fillClass_enrolls_eligible [OF a b c d] by (simp add: f g)
qed

section \<open>The rows that suggestSubstitutes reads\<close>

lemma assigned_substitute_ids_mem:
  "Some i \<in> set (assigned_substitute_ids db a b c d e f) \<longleftrightarrow>
     (\<exists>t \<in> set (TimeOffRequest db).
        TimeOffRequest_SubstituteID t = Some i
        \<and> request_dates_condition (TimeOffRequest_StartDate t) (TimeOffRequest_EndDate t)
             a b c d e f)"
  unfolding assigned_substitute_ids_def by force

lemma fetchone_filter_first:
  assumes "rows = pre @ r # post" and "\<forall>t \<in> set pre. \<not> P t" and "P r"
  shows "fetchone (filter P rows) = Some r"
proof -
  have "filter P pre = []" using assms(2) by (simp add: filter_empty_conv)
  then show ?thesis using assms(1,3) by (simp add: fetchone_def)
qed

lemma fetchone_filter_none:
  assumes "\<forall>t \<in> set rows. \<not> P t"
  shows "fetchone (filter P rows) = None"
proof -
  have "filter P rows = []" using assms by (simp add: filter_empty_conv)
  then show ?thesis by (simp add: fetchone_def)
qed

lemma substitute_join_availability_mem:
  "(sub, a) \<in> set (substitute_join_availability db) \<longleftrightarrow>
     sub \<in> set (Substitute db) \<and> a \<in> set (Availability db)
     \<and> Substitute_ID sub = Availability_SubstituteID a"
  unfolding substitute_join_availability_def by auto

lemma suggest_subs_assigned_plan_mem:
  "(sub, a) \<in> set (suggest_subs_assigned_plan db sid s e) \<longleftrightarrow>
     sub \<in> set (Substitute db) \<and> a \<in> set (Availability db)
     \<and> Substitute_ID sub = sid \<and> Availability_SubstituteID a = sid
     \<and> Availability_StartDate a \<le> s \<and> Availability_EndDate a \<ge> e"
  unfolding suggest_subs_assigned_plan_def
  by (auto simp: substitute_join_availability_mem)

lemma suggest_subs_available_plan_mem:
  "(sub, a) \<in> set (suggest_subs_available_plan db s e s e s e s e) \<longleftrightarrow>
     sub \<in> set (Substitute db) \<and> a \<in> set (Availability db)
     \<and> Substitute_ID sub = Availability_SubstituteID a
     \<and> Availability_StartDate a \<le> s \<and> Availability_EndDate a \<ge> e
     \<and> \<not> (\<exists>t \<in> set (TimeOffRequest db).
            TimeOffRequest_SubstituteID t = Some (Substitute_ID sub)
            \<and> request_dates_condition (TimeOffRequest_StartDate t) (TimeOffRequest_EndDate t)
                 s e s e s e)"
  unfolding suggest_subs_available_plan_def
  by (simp add: substitute_join_availability_mem assigned_substitute_ids_mem)

lemma suggestSubstitutes_candidates:
  assumes "fetchone (suggest_subs_validate_staff_plan db staff_number) = Some staff_data"
      and "assigned_sub_of db (Staff_ID staff_data) s e = None"
  shows "\<exists>cs. suggestSubstitutes db staff_number s e = Inr cs
           \<and> (\<forall>c \<in> set cs. \<not> already_assigned c)
           \<and> set cs = {candidate_of False (sub, a) | sub a.
                sub \<in> set (Substitute db) \<and> a \<in> set (Availability db)
                \<and> Substitute_ID sub = Availability_SubstituteID a
                \<and> Availability_StartDate a \<le> s \<and> Availability_EndDate a \<ge> e
                \<and> \<not> (\<exists>t \<in> set (TimeOffRequest db).
                       TimeOffRequest_SubstituteID t = Some (Substitute_ID sub)
                       \<and> request_dates_condition (TimeOffRequest_StartDate t)
                            (TimeOffRequest_EndDate t) s e s e s e)}"
proof -
  let ?plan = "suggest_subs_available_plan db s e s e s e s e"
  have result: "suggestSubstitutes db staff_number s e = Inr (map (candidate_of False) ?plan)"
    using assms by (simp add: suggestSubstitutes_def)
  have marks: "\<forall>c \<in> set (map (candidate_of False) ?plan). \<not> already_assigned c"
    by (auto simp: candidate_of_def)
  have "set (map (candidate_of False) ?plan) = {candidate_of False p | p. p \<in> set ?plan}"
    by auto
  also have "\<dots> = {candidate_of False (sub, a) | sub a. (sub, a) \<in> set ?plan}"
    by auto
  finally have "set (map (candidate_of False) ?plan) = {candidate_of False (sub, a) | sub a.
                sub \<in> set (Substitute db) \<and> a \<in> set (Availability db)
                \<and> Substitute_ID sub = Availability_SubstituteID a
                \<and> Availability_StartDate a \<le> s \<and> Availability_EndDate a \<ge> e
                \<and> \<not> (\<exists>t \<in> set (TimeOffRequest db).
                       TimeOffRequest_SubstituteID t = Some (Substitute_ID sub)
                       \<and> request_dates_condition (TimeOffRequest_StartDate t)
                            (TimeOffRequest_EndDate t) s e s e s e)}"
    by (simp only: suggest_subs_available_plan_mem)
  with result marks show ?thesis by blast
qed

section \<open>The outcome of suggestSubstitutes\<close>

text \<open>
  Claim C5, as stated, fails: in \<open>two_requests_db\<close>, which two calls of
  \<open>requestTimeOff\<close> produce, the second request of staff member T001 overlaps the range
  from 2025-02-02 to 2025-02-03 and carries Sub1, whose availability covers the range;
  but \<open>suggestSubstitutes\<close> reads the first request only, which has no substitute, and
  returns the candidate list (Sub2 alone, not marked as assigned).
\<close>

theorem suggestSubstitutes_later_request_counterexample:
  "snd (requestTimeOff
          (snd (requestTimeOff year_db ''T001'' (Date 2025 2 1) (Date 2025 2 3) ''leave'' None))
          ''T001'' (Date 2025 2 2) (Date 2025 2 4) ''leave'' (Some ''SUB1''))
     = two_requests_db
   \<and> request_row 2 (Date 2025 2 2) (Date 2025 2 4) ''leave'' 1 (Some 1)
       \<in> set (TimeOffRequest two_requests_db)
   \<and> fetchone (suggest_subs_validate_staff_plan two_requests_db ''T001'') = Some staffA
   \<and> Staff_ID staffA = 1
   \<and> request_dates_condition (Date 2025 2 2) (Date 2025 2 4)
        (Date 2025 2 2) (Date 2025 2 3) (Date 2025 2 2) (Date 2025 2 3)
        (Date 2025 2 2) (Date 2025 2 3)
   \<and> check_substitute_availability_plan two_requests_db 1 (Date 2025 2 2) (Date 2025 2 3) \<noteq> 0
   \<and> suggestSubstitutes two_requests_db ''T001'' (Date 2025 2 2) (Date 2025 2 3)
       = Inr [candidate_of False (Sub2, available 2 (Date 2025 1 1) (Date 2025 12 31))]
   \<and> suggestSubstitutes two_requests_db ''T001'' (Date 2025 2 2) (Date 2025 2 3)
       \<noteq> Inr [candidate_of True (Sub1, available 1 (Date 2025 1 1) (Date 2025 12 31))]"
  by (simp add: suggestSubstitutes_defs scenario_defs less_eq_date_def
      requestTimeOff_def validate_substitute_def validate_staff_plan_def
      validate_substitute_plan_def check_substitute_availability_plan_def
      insert_time_off_request_plan_def get_time_off_request_plan_def Let_def)

text \<open>
  Claim C5, amended. Let the staff number resolve. If the first stored request of the
  staff member that meets the condition on the dates carries a substitute who has a
  substitute row and an availability row covering the range, the outcome is a list of one
  entry, for that substitute and one of its covering rows, marked as assigned. If no
  request of the staff member meets the condition, or the first one that does carries no
  substitute, or carries one without such rows, the outcome is a list of entries not
  marked as assigned: one for each pair of a substitute and a covering availability row
  of it, for the substitutes that no request meeting the condition carries.
\<close>

theorem suggestSubstitutes_first_request:
  assumes staff: "fetchone (suggest_subs_validate_staff_plan db staff_number) = Some staff_data"
  shows
   "(TimeOffRequest db = pre @ r # post
      \<and> (\<forall>t \<in> set pre. \<not> (TimeOffRequest_StaffID t = Staff_ID staff_data
              \<and> request_dates_condition (TimeOffRequest_StartDate t) (TimeOffRequest_EndDate t)
                   s e s e s e))
      \<and> TimeOffRequest_StaffID r = Staff_ID staff_data
      \<and> request_dates_condition (TimeOffRequest_StartDate r) (TimeOffRequest_EndDate r) s e s e s e
      \<and> TimeOffRequest_SubstituteID r = Some sid
      \<and> (\<exists>sub \<in> set (Substitute db). \<exists>a \<in> set (Availability db).
            Substitute_ID sub = sid \<and> Availability_SubstituteID a = sid
            \<and> Availability_StartDate a \<le> s \<and> Availability_EndDate a \<ge> e)
      \<longrightarrow> (\<exists>sub \<in> set (Substitute db). \<exists>a \<in> set (Availability db).
            Substitute_ID sub = sid \<and> Availability_SubstituteID a = sid
            \<and> Availability_StartDate a \<le> s \<and> Availability_EndDate a \<ge> e
            \<and> suggestSubstitutes db staff_number s e = Inr [candidate_of True (sub, a)]))
    \<and> (((\<forall>t \<in> set (TimeOffRequest db). \<not> (TimeOffRequest_StaffID t = Staff_ID staff_data
              \<and> request_dates_condition (TimeOffRequest_StartDate t) (TimeOffRequest_EndDate t)
                   s e s e s e))
         \<or> (TimeOffRequest db = pre @ r # post
             \<and> (\<forall>t \<in> set pre. \<not> (TimeOffRequest_StaffID t = Staff_ID staff_data
                    \<and> request_dates_condition (TimeOffRequest_StartDate t)
                         (TimeOffRequest_EndDate t) s e s e s e))
             \<and> TimeOffRequest_StaffID r = Staff_ID staff_data
             \<and> request_dates_condition (TimeOffRequest_StartDate r) (TimeOffRequest_EndDate r)
                  s e s e s e
             \<and> (TimeOffRequest_SubstituteID r = None
                 \<or> (\<exists>i. TimeOffRequest_SubstituteID r = Some i
                      \<and> \<not> (\<exists>sub \<in> set (Substitute db). \<exists>a \<in> set (Availability db).
                             Substitute_ID sub = i \<and> Availability_SubstituteID a = i
                             \<and> Availability_StartDate a \<le> s \<and> Availability_EndDate a \<ge> e)))))
        \<longrightarrow> (\<exists>cs. suggestSubstitutes db staff_number s e = Inr cs
               \<and> (\<forall>c \<in> set cs. \<not> already_assigned c)
               \<and> set cs = {candidate_of False (sub, a) | sub a.
                    sub \<in> set (Substitute db) \<and> a \<in> set (Availability db)
                    \<and> Substitute_ID sub = Availability_SubstituteID a
                    \<and> Availability_StartDate a \<le> s \<and> Availability_EndDate a \<ge> e
                    \<and> \<not> (\<exists>t \<in> set (TimeOffRequest db).
                           TimeOffRequest_SubstituteID t = Some (Substitute_ID sub)
                           \<and> request_dates_condition (TimeOffRequest_StartDate t)
                                (TimeOffRequest_EndDate t) s e s e s e)}))"
proof (intro conjI impI)
  let ?P = "\<lambda>t. TimeOffRequest_StaffID t = Staff_ID staff_data
              \<and> request_dates_condition (TimeOffRequest_StartDate t) (TimeOffRequest_EndDate t)
                   s e s e s e"
  assume h: "TimeOffRequest db = pre @ r # post
      \<and> (\<forall>t \<in> set pre. \<not> ?P t)
      \<and> TimeOffRequest_StaffID r = Staff_ID staff_data
      \<and> request_dates_condition (TimeOffRequest_StartDate r) (TimeOffRequest_EndDate r) s e s e s e
      \<and> TimeOffRequest_SubstituteID r = Some sid
      \<and> (\<exists>sub \<in> set (Substitute db). \<exists>a \<in> set (Availability db).
            Substitute_ID sub = sid \<and> Availability_SubstituteID a = sid
            \<and> Availability_StartDate a \<le> s \<and> Availability_EndDate a \<ge> e)"
  have first: "fetchone (suggest_subs_timeoff_request_plan db (Staff_ID staff_data) s e s e s e)
                 = Some r"
    unfolding suggest_subs_timeoff_request_plan_def
    by (rule fetchone_filter_first [of _ pre r post]) (use h in simp_all)
  from h obtain sub0 a0 where "(sub0, a0) \<in> set (suggest_subs_assigned_plan db sid s e)"
    unfolding suggest_subs_assigned_plan_mem by blast
  then obtain row rest where rows: "suggest_subs_assigned_plan db sid s e = row # rest"
    by (cases "suggest_subs_assigned_plan db sid s e") auto
  obtain sub a where row: "row = (sub, a)" by (cases row)
  have "(sub, a) \<in> set (suggest_subs_assigned_plan db sid s e)"
    by (simp add: rows row)
  then have mem: "sub \<in> set (Substitute db)" "a \<in> set (Availability db)"
     "Substitute_ID sub = sid" "Availability_SubstituteID a = sid"
     "Availability_StartDate a \<le> s" "Availability_EndDate a \<ge> e"
    unfolding suggest_subs_assigned_plan_mem by simp_all
  have details: "fetchone (suggest_subs_assigned_plan db sid s e) = Some (sub, a)"
    by (simp add: rows row fetchone_def)
  have carried: "TimeOffRequest_SubstituteID r = Some sid"
    using h by simp
  have "assigned_sub_of db (Staff_ID staff_data) s e = Some (sub, a)"
    by (simp add: assigned_sub_of_def first carried details)
  then have "suggestSubstitutes db staff_number s e = Inr [candidate_of True (sub, a)]"
    using staff by (simp add: suggestSubstitutes_def)
  with mem show "\<exists>sub \<in> set (Substitute db). \<exists>a \<in> set (Availability db).
            Substitute_ID sub = sid \<and> Availability_SubstituteID a = sid
            \<and> Availability_StartDate a \<le> s \<and> Availability_EndDate a \<ge> e
            \<and> suggestSubstitutes db staff_number s e = Inr [candidate_of True (sub, a)]"
    by blast
next
  let ?P = "\<lambda>t. TimeOffRequest_StaffID t = Staff_ID staff_data
              \<and> request_dates_condition (TimeOffRequest_StartDate t) (TimeOffRequest_EndDate t)
                   s e s e s e"
  assume h: "(\<forall>t \<in> set (TimeOffRequest db). \<not> ?P t)
         \<or> (TimeOffRequest db = pre @ r # post
             \<and> (\<forall>t \<in> set pre. \<not> ?P t)
             \<and> TimeOffRequest_StaffID r = Staff_ID staff_data
             \<and> request_dates_condition (TimeOffRequest_StartDate r) (TimeOffRequest_EndDate r)
                  s e s e s e
             \<and> (TimeOffRequest_SubstituteID r = None
                 \<or> (\<exists>i. TimeOffRequest_SubstituteID r = Some i
                      \<and> \<not> (\<exists>sub \<in> set (Substitute db). \<exists>a \<in> set (Availability db).
                             Substitute_ID sub = i \<and> Availability_SubstituteID a = i
                             \<and> Availability_StartDate a \<le> s \<and> Availability_EndDate a \<ge> e))))"
  have "assigned_sub_of db (Staff_ID staff_data) s e = None"
    using h
  proof (elim disjE conjE exE)
    assume "\<forall>t \<in> set (TimeOffRequest db). \<not> ?P t"
    then have "fetchone (suggest_subs_timeoff_request_plan db (Staff_ID staff_data) s e s e s e)
                 = None"
      unfolding suggest_subs_timeoff_request_plan_def by (rule fetchone_filter_none)
    then show ?thesis by (simp add: assigned_sub_of_def)
  next
    assume f: "TimeOffRequest db = pre @ r # post" "\<forall>t \<in> set pre. \<not> ?P t"
      "TimeOffRequest_StaffID r = Staff_ID staff_data"
      "request_dates_condition (TimeOffRequest_StartDate r) (TimeOffRequest_EndDate r) s e s e s e"
      and none: "TimeOffRequest_SubstituteID r = None"
    have "fetchone (suggest_subs_timeoff_request_plan db (Staff_ID staff_data) s e s e s e)
                 = Some r"
      unfolding suggest_subs_timeoff_request_plan_def
      by (rule fetchone_filter_first [of _ pre r post]) (use f in simp_all)
    then show ?thesis by (simp add: assigned_sub_of_def none)
  next
    fix i
    assume f: "TimeOffRequest db = pre @ r # post" "\<forall>t \<in> set pre. \<not> ?P t"
      "TimeOffRequest_StaffID r = Staff_ID staff_data"
      "request_dates_condition (TimeOffRequest_StartDate r) (TimeOffRequest_EndDate r) s e s e s e"
      and some: "TimeOffRequest_SubstituteID r = Some i"
      and uncovered: "\<not> (\<exists>sub \<in> set (Substitute db). \<exists>a \<in> set (Availability db).
                             Substitute_ID sub = i \<and> Availability_SubstituteID a = i
                             \<and> Availability_StartDate a \<le> s \<and> Availability_EndDate a \<ge> e)"
    have first: "fetchone (suggest_subs_timeoff_request_plan db (Staff_ID staff_data) s e s e s e)
                 = Some r"
      unfolding suggest_subs_timeoff_request_plan_def
      by (rule fetchone_filter_first [of _ pre r post]) (use f in simp_all)
    have "suggest_subs_assigned_plan db i s e = []"
    proof (cases "suggest_subs_assigned_plan db i s e")
      case Nil
      then show ?thesis .
    next
      case (Cons row rest)
      obtain sub a where "row = (sub, a)" by (cases row)
      with Cons have "(sub, a) \<in> set (suggest_subs_assigned_plan db i s e)" by simp
      with uncovered show ?thesis
        unfolding suggest_subs_assigned_plan_mem by blast
    qed
    then have "fetchone (suggest_subs_assigned_plan db i s e) = None"
      by (simp add: fetchone_def)
    then show ?thesis by (simp add: assigned_sub_of_def first some)
  qed
  with staff show "\<exists>cs. suggestSubstitutes db staff_number s e = Inr cs
               \<and> (\<forall>c \<in> set cs. \<not> already_assigned c)
               \<and> set cs = {candidate_of False (sub, a) | sub a.
                    sub \<in> set (Substitute db) \<and> a \<in> set (Availability db)
                    \<and> Substitute_ID sub = Availability_SubstituteID a
                    \<and> Availability_StartDate a \<le> s \<and> Availability_EndDate a \<ge> e
                    \<and> \<not> (\<exists>t \<in> set (TimeOffRequest db).
                           TimeOffRequest_SubstituteID t = Some (Substitute_ID sub)
                           \<and> request_dates_condition (TimeOffRequest_StartDate t)
                                (TimeOffRequest_EndDate t) s e s e s e)}"
    by (rule suggestSubstitutes_candidates)
qed

theorem suggestSubstitutes_first_request_witness:
  "fetchone (suggest_subs_validate_staff_plan committed_db ''T001'') = Some staffA
   \<and> TimeOffRequest committed_db
       = [] @ request_row 1 (Date 2025 2 1) (Date 2025 2 3) ''leave'' 1 (Some 1) # []
   \<and> suggestSubstitutes committed_db ''T001'' (Date 2025 2 2) (Date 2025 2 3)
       = Inr [candidate_of True (Sub1, available 1 (Date 2025 1 1) (Date 2025 12 31))]
   \<and> fetchone (suggest_subs_validate_staff_plan two_requests_db ''T001'') = Some staffA
   \<and> TimeOffRequest two_requests_db
       = [] @ request_row 1 (Date 2025 2 1) (Date 2025 2 3) ''leave'' 1 None
            # [request_row 2 (Date 2025 2 2) (Date 2025 2 4) ''leave'' 1 (Some 1)]
   \<and> suggestSubstitutes two_requests_db ''T001'' (Date 2025 2 2) (Date 2025 2 3)
       = Inr [candidate_of False (Sub2, available 2 (Date 2025 1 1) (Date 2025 12 31))]"
proof -
  have a: "fetchone (suggest_subs_validate_staff_plan committed_db ''T001'') = Some staffA"
    by (simp add: suggestSubstitutes_defs scenario_defs)
  have b: "fetchone (suggest_subs_validate_staff_plan two_requests_db ''T001'') = Some staffA"
    by (simp add: suggestSubstitutes_defs scenario_defs)
  show ?thesis
    using a b
      suggestSubstitutes_first_request
        [OF a, of "[]" "request_row 1 (Date 2025 2 1) (Date 2025 2 3) ''leave'' 1 (Some 1)" "[]"
           "Date 2025 2 2" "Date 2025 2 3" 1]
      suggestSubstitutes_first_request
        [OF b, of "[]" "request_row 1 (Date 2025 2 1) (Date 2025 2 3) ''leave'' 1 None"
           "[request_row 2 (Date 2025 2 2) (Date 2025 2 4) ''leave'' 1 (Some 1)]"
           "Date 2025 2 2" "Date 2025 2 3" 1]
    by (simp add: suggestSubstitutes_defs scenario_defs less_eq_date_def)
qed

section \<open>The order of the candidates\<close>

lemma candidate_key:
  "map (\<lambda>c. (last_name c, first_name c)) (map (candidate_of b) rows)
     = map (\<lambda>(s, a). (Substitute_LastName s, Substitute_FirstName s)) rows"
  by (simp add: candidate_of_def case_prod_unfold)

lemma suggest_subs_available_plan_sorted:
  "sorted (map (\<lambda>(s, a). (Substitute_LastName s, Substitute_FirstName s))
             (suggest_subs_available_plan db p1 p2 p3 p4 p5 p6 p7 p8))"
  unfolding suggest_subs_available_plan_def by (rule sorted_sort_key)

text \<open>
  Claim C7. The candidate list is sorted by last name, then first name; so is every list
  that \<open>suggestSubstitutes\<close> returns. The outcome is a function of the four tables that
  the statements read: in two databases that agree on them, the same call gives the same
  list in the same order.
\<close>

theorem suggestSubstitutes_sorted:
  "sorted (map (\<lambda>c. (last_name c, first_name c))
             (map (candidate_of False) (suggest_subs_available_plan db p1 p2 p3 p4 p5 p6 p7 p8)))
   \<and> (suggestSubstitutes db staff_number s e = Inr cs
        \<longrightarrow> sorted (map (\<lambda>c. (last_name c, first_name c)) cs))
   \<and> (Staff db' = Staff db \<and> Substitute db' = Substitute db
        \<and> Availability db' = Availability db \<and> TimeOffRequest db' = TimeOffRequest db
        \<longrightarrow> suggestSubstitutes db' staff_number s e = suggestSubstitutes db staff_number s e)"
proof (intro conjI impI)
  show "sorted (map (\<lambda>c. (last_name c, first_name c))
             (map (candidate_of False) (suggest_subs_available_plan db p1 p2 p3 p4 p5 p6 p7 p8)))"
    unfolding candidate_key by (rule suggest_subs_available_plan_sorted)
next
  assume r: "suggestSubstitutes db staff_number s e = Inr cs"
  show "sorted (map (\<lambda>c. (last_name c, first_name c)) cs)"
  proof (cases "fetchone (suggest_subs_validate_staff_plan db staff_number)")
    case None
    with r show ?thesis by (simp add: suggestSubstitutes_def)
  next
    case (Some staff_data)
    show ?thesis
    proof (cases "assigned_sub_of db (Staff_ID staff_data) s e")
      case None
      with Some r have "cs = map (candidate_of False) (suggest_subs_available_plan db s e s e s e s e)"
        by (simp add: suggestSubstitutes_def)
      then show ?thesis
        by (simp only: candidate_key suggest_subs_available_plan_sorted)
    next
      case (Some assigned_sub)
      with \<open>fetchone (suggest_subs_validate_staff_plan db staff_number) = Some staff_data\<close> r
      have "cs = [candidate_of True assigned_sub]"
        by (simp add: suggestSubstitutes_def)
      then show ?thesis by simp
    qed
  qed
next
  assume "Staff db' = Staff db \<and> Substitute db' = Substitute db
        \<and> Availability db' = Availability db \<and> TimeOffRequest db' = TimeOffRequest db"
  then have same: "Staff db' = Staff db" "Substitute db' = Substitute db"
    "Availability db' = Availability db" "TimeOffRequest db' = TimeOffRequest db"
    by simp_all
  have staff: "suggest_subs_validate_staff_plan db' staff_number
                 = suggest_subs_validate_staff_plan db staff_number"
    by (simp add: suggest_subs_validate_staff_plan_def same)
  have request: "suggest_subs_timeoff_request_plan db' i s e s e s e
                   = suggest_subs_timeoff_request_plan db i s e s e s e" for i
    by (simp add: suggest_subs_timeoff_request_plan_def same)
  have details: "suggest_subs_assigned_plan db' i s e = suggest_subs_assigned_plan db i s e" for i
    by (simp add: suggest_subs_assigned_plan_def substitute_join_availability_def same)
  have assigned: "assigned_sub_of db' i s e = assigned_sub_of db i s e" for i
    by (simp only: assigned_sub_of_def request details)
  have available: "suggest_subs_available_plan db' s e s e s e s e
                     = suggest_subs_available_plan db s e s e s e s e"
    by (simp add: suggest_subs_available_plan_def substitute_join_availability_def
        assigned_substitute_ids_def same)
  show "suggestSubstitutes db' staff_number s e = suggestSubstitutes db staff_number s e"
    by (simp only: suggestSubstitutes_def staff assigned available)
qed

text \<open>Sub1 (Young) is stored before Sub2 (Abbot) and listed after.\<close>

theorem suggestSubstitutes_sorted_witness:
  "suggestSubstitutes year_db ''T001'' (Date 2025 2 2) (Date 2025 2 3)
     = Inr [candidate_of False (Sub2, available 2 (Date 2025 1 1) (Date 2025 12 31)),
            candidate_of False (Sub1, available 1 (Date 2025 1 1) (Date 2025 12 31))]
   \<and> sorted [(''Abbot'', ''Dan''), (''Young'', ''Cleo'')]
   \<and> suggestSubstitutes (year_db\<lparr>StaffToClass := [(1, 2)]\<rparr>) ''T001''
        (Date 2025 2 2) (Date 2025 2 3)
     = suggestSubstitutes year_db ''T001'' (Date 2025 2 2) (Date 2025 2 3)"
proof -
  have a: "suggestSubstitutes year_db ''T001'' (Date 2025 2 2) (Date 2025 2 3)
     = Inr [candidate_of False (Sub2, available 2 (Date 2025 1 1) (Date 2025 12 31)),
            candidate_of False (Sub1, available 1 (Date 2025 1 1) (Date 2025 12 31))]"
    by (simp add: suggestSubstitutes_defs scenario_defs less_eq_date_def)
  show ?thesis
    using a suggestSubstitutes_sorted
      [of year_db "Date 2025 2 2" "Date 2025 2 3" "Date 2025 2 2" "Date 2025 2 3"
          "Date 2025 2 2" "Date 2025 2 3" "Date 2025 2 2" "Date 2025 2 3" "''T001''"
          "Date 2025 2 2" "Date 2025 2 3"
          "[candidate_of False (Sub2, available 2 (Date 2025 1 1) (Date 2025 12 31)),
            candidate_of False (Sub1, available 1 (Date 2025 1 1) (Date 2025 12 31))]"
          "year_db\<lparr>StaffToClass := [(1, 2)]\<rparr>"]
    by (simp add: candidate_of_def Sub1_def Sub2_def)
qed

section \<open>One entry for each covering availability row\<close>

lemma join_rows_none:
  assumes "\<forall>s \<in> set subs. Q s \<noteq> n"
  shows "filter (\<lambda>(s, a). Q s = n \<and> R s a) (concat (map (\<lambda>s. map (\<lambda>a. (s, a)) (h s)) subs)) = []"
  using assms by (induction subs) (auto simp: filter_empty_conv)

lemma join_rows_one:
  assumes "distinct (map Q subs)" and "sub \<in> set subs"
  shows "filter (\<lambda>(s, a). Q s = Q sub \<and> R s a) (concat (map (\<lambda>s. map (\<lambda>a. (s, a)) (h s)) subs))
           = map (\<lambda>a. (sub, a)) (filter (R sub) (h sub))"
  using assms
proof (induction subs)
  case Nil
  then show ?case by simp
next
  case (Cons x subs)
  show ?case
  proof (cases "x = sub")
    case True
    have "Q sub \<notin> Q ` set subs"
      using Cons.prems(1) True by simp
    then have "\<forall>s \<in> set subs. Q s \<noteq> Q sub"
      by (metis imageI)
    then have rest: "filter (\<lambda>(s, a). Q s = Q sub \<and> R s a)
                       (concat (map (\<lambda>s. map (\<lambda>a. (s, a)) (h s)) subs)) = []"
      by (rule join_rows_none)
    have "filter (\<lambda>(s, a). Q s = Q sub \<and> R s a) (map (\<lambda>a. (sub, a)) (h sub))
            = map (\<lambda>a. (sub, a)) (filter (R sub) (h sub))"
      by (simp add: filter_map comp_def)
    with rest True show ?thesis by simp
  next
    case False
    with Cons.prems have in_rest: "sub \<in> set subs" and diff: "Q x \<noteq> Q sub" by auto
    have "filter (\<lambda>(s, a). Q s = Q sub \<and> R s a) (map (\<lambda>a. (x, a)) (h x)) = []"
      using diff by (simp add: filter_empty_conv)
    moreover have "filter (\<lambda>(s, a). Q s = Q sub \<and> R s a)
                       (concat (map (\<lambda>s. map (\<lambda>a. (s, a)) (h s)) subs))
                     = map (\<lambda>a. (sub, a)) (filter (R sub) (h sub))"
      using Cons.IH Cons.prems(1) in_rest by simp
    ultimately show ?thesis by simp
  qed
qed

lemma sorted_same_key: "sorted (map (\<lambda>a. k) rows)"
  by (induction rows) simp_all

lemma suggest_subs_available_plan_entries:
  assumes "distinct (map Substitute_Number (Substitute db))" and "sub \<in> set (Substitute db)"
      and "Some (Substitute_ID sub) \<notin> set (assigned_substitute_ids db s e s e s e)"
  shows "filter (\<lambda>(x, a). Substitute_Number x = Substitute_Number sub)
           (suggest_subs_available_plan db s e s e s e s e)
           = map (\<lambda>a. (sub, a))
               (filter (\<lambda>a. Availability_SubstituteID a = Substitute_ID sub
                            \<and> Availability_StartDate a \<le> s \<and> Availability_EndDate a \<ge> e)
                  (Availability db))"
proof -
  let ?R = "\<lambda>x a. (Availability_StartDate a \<le> s \<and> Availability_EndDate a \<ge> e)
                  \<and> Some (Substitute_ID x) \<notin> set (assigned_substitute_ids db s e s e s e)"
  let ?h = "\<lambda>x. filter (\<lambda>a. Substitute_ID x = Availability_SubstituteID a) (Availability db)"
  let ?key = "\<lambda>(x, a). (Substitute_LastName x, Substitute_FirstName x)"
  have rows: "filter (?R sub) (?h sub)
               = filter (\<lambda>a. Availability_SubstituteID a = Substitute_ID sub
                                \<and> Availability_StartDate a \<le> s \<and> Availability_EndDate a \<ge> e)
                       (Availability db)"
    using assms(3) by (auto intro: filter_cong)
  have "filter (\<lambda>(x, a). Substitute_Number x = Substitute_Number sub)
          (suggest_subs_available_plan db s e s e s e s e)
        = sort_key ?key
            (filter (\<lambda>(x, a). Substitute_Number x = Substitute_Number sub \<and> ?R x a)
               (substitute_join_availability db))"
    unfolding suggest_subs_available_plan_def
    by (simp add: filter_sort case_prod_unfold conj_commute)
  also have "filter (\<lambda>(x, a). Substitute_Number x = Substitute_Number sub \<and> ?R x a)
               (substitute_join_availability db)
             = map (\<lambda>a. (sub, a)) (filter (?R sub) (?h sub))"
    unfolding substitute_join_availability_def
    using join_rows_one [OF assms(1,2), of ?R ?h] .
  also have "sort_key ?key (map (\<lambda>a. (sub, a)) (filter (?R sub) (?h sub)))
               = map (\<lambda>a. (sub, a)) (filter (?R sub) (?h sub))"
    by (rule sort_key_id_if_sorted) (simp add: comp_def sorted_same_key)
  finally show ?thesis by (simp only: rows)
qed

text \<open>
  Claim C9. In the candidate branch, for a stored substitute that no request meeting the
  condition on the dates carries, the entries of the returned list with that
  substitute's number are one for each availability row of the substitute that covers
  the range, in the order of the rows: as many entries as covering rows. (Substitute
  numbers are unique, so that the entries of a substitute are those with its number.)
\<close>

theorem suggestSubstitutes_entry_per_row:
  assumes numbers: "distinct (map Substitute_Number (Substitute db))"
      and sub: "sub \<in> set (Substitute db)"
      and free: "\<not> (\<exists>t \<in> set (TimeOffRequest db).
                      TimeOffRequest_SubstituteID t = Some (Substitute_ID sub)
                      \<and> request_dates_condition (TimeOffRequest_StartDate t)
                           (TimeOffRequest_EndDate t) s e s e s e)"
      and staff: "fetchone (suggest_subs_validate_staff_plan db staff_number) = Some staff_data"
      and branch: "assigned_sub_of db (Staff_ID staff_data) s e = None"
  shows "\<exists>cs. suggestSubstitutes db staff_number s e = Inr cs
           \<and> filter (\<lambda>c. number c = Substitute_Number sub) cs
               = map (\<lambda>a. candidate_of False (sub, a))
                   (filter (\<lambda>a. Availability_SubstituteID a = Substitute_ID sub
                                \<and> Availability_StartDate a \<le> s \<and> Availability_EndDate a \<ge> e)
                      (Availability db))
           \<and> length (filter (\<lambda>c. number c = Substitute_Number sub) cs)
               = length (filter (\<lambda>a. Availability_SubstituteID a = Substitute_ID sub
                                     \<and> Availability_StartDate a \<le> s \<and> Availability_EndDate a \<ge> e)
                           (Availability db))"
proof -
  let ?plan = "suggest_subs_available_plan db s e s e s e s e"
  let ?rows = "filter (\<lambda>a. Availability_SubstituteID a = Substitute_ID sub
                           \<and> Availability_StartDate a \<le> s \<and> Availability_EndDate a \<ge> e)
                 (Availability db)"
  have result: "suggestSubstitutes db staff_number s e = Inr (map (candidate_of False) ?plan)"
    using staff branch by (simp add: suggestSubstitutes_def)
  have not_assigned: "Some (Substitute_ID sub) \<notin> set (assigned_substitute_ids db s e s e s e)"
    using free by (simp add: assigned_substitute_ids_mem)
  have "filter (\<lambda>c. number c = Substitute_Number sub) (map (candidate_of False) ?plan)
          = map (candidate_of False)
              (filter (\<lambda>(x, a). Substitute_Number x = Substitute_Number sub) ?plan)"
    by (simp add: filter_map comp_def candidate_of_def case_prod_unfold)
  also have "\<dots> = map (candidate_of False) (map (\<lambda>a. (sub, a)) ?rows)"
    by (simp only: suggest_subs_available_plan_entries [OF numbers sub not_assigned])
  also have "\<dots> = map (\<lambda>a. candidate_of False (sub, a)) ?rows"
    by simp
  finally have entries: "filter (\<lambda>c. number c = Substitute_Number sub) (map (candidate_of False) ?plan)
                   = map (\<lambda>a. candidate_of False (sub, a)) ?rows" .
  then have "length (filter (\<lambda>c. number c = Substitute_Number sub) (map (candidate_of False) ?plan))
               = length ?rows"
    by simp
  with result entries show ?thesis by blast
qed

text \<open>
  Sub1 has two availability rows that cover the range from 2025-01-09 to 2025-01-10 and
  appears twice.
\<close>

theorem suggestSubstitutes_entry_per_row_witness:
  "distinct (map Substitute_Number (Substitute pieced_db))
   \<and> Sub1 \<in> set (Substitute pieced_db)
   \<and> fetchone (suggest_subs_validate_staff_plan pieced_db ''T001'') = Some staffA
   \<and> assigned_sub_of pieced_db (Staff_ID staffA) (Date 2025 1 9) (Date 2025 1 10) = None
   \<and> suggestSubstitutes pieced_db ''T001'' (Date 2025 1 9) (Date 2025 1 10)
       = Inr [candidate_of False (Sub1, available 1 (Date 2025 1 1) (Date 2025 1 10)),
              candidate_of False (Sub1, available 1 (Date 2025 1 9) (Date 2025 1 20))]
   \<and> length (filter (\<lambda>a. Availability_SubstituteID a = Substitute_ID Sub1
                          \<and> Availability_StartDate a \<le> Date 2025 1 9
                          \<and> Availability_EndDate a \<ge> Date 2025 1 10)
                (Availability pieced_db)) = 2"
proof -
  have a: "distinct (map Substitute_Number (Substitute pieced_db))"
    by (simp add: scenario_defs)
  have b: "Sub1 \<in> set (Substitute pieced_db)"
    by (simp add: scenario_defs)
  have c: "\<not> (\<exists>t \<in> set (TimeOffRequest pieced_db).
                      TimeOffRequest_SubstituteID t = Some (Substitute_ID Sub1)
                      \<and> request_dates_condition (TimeOffRequest_StartDate t)
                           (TimeOffRequest_EndDate t) (Date 2025 1 9) (Date 2025 1 10)
                           (Date 2025 1 9) (Date 2025 1 10) (Date 2025 1 9) (Date 2025 1 10))"
    by (simp add: scenario_defs)
  have d: "fetchone (suggest_subs_validate_staff_plan pieced_db ''T001'') = Some staffA"
    by (simp add: suggestSubstitutes_defs scenario_defs)
  have e: "assigned_sub_of pieced_db (Staff_ID staffA) (Date 2025 1 9) (Date 2025 1 10) = None"
    by (simp add: suggestSubstitutes_defs scenario_defs)
  have f: "suggestSubstitutes pieced_db ''T001'' (Date 2025 1 9) (Date 2025 1 10)
       = Inr [candidate_of False (Sub1, available 1 (Date 2025 1 1) (Date 2025 1 10)),
              candidate_of False (Sub1, available 1 (Date 2025 1 9) (Date 2025 1 20))]"
    by (simp add: suggestSubstitutes_defs scenario_defs less_eq_date_def)
  show ?thesis
    using a b d e f suggestSubstitutes_entry_per_row [OF a b c d e]
    by (simp add: candidate_of_def Sub1_def)
qed

end
